theory Spec2Isabelle
  imports Complex_Main "HOL-Library.Multiset"
begin

section \<open>Python strings\<close>

text \<open>
  Strings are byte lists. \<open>str.lower()\<close> and \<open>str.upper()\<close> are modelled on ASCII:
  the letters \<open>A\<close>..\<open>Z\<close> (65..90) and \<open>a\<close>..\<open>z\<close> (97..122) are exchanged, every
  other character is left as it is.
\<close>

definition lower_char :: "char \<Rightarrow> char" where
  "lower_char c =
     (let n = (of_char c :: nat) in if 65 \<le> n \<and> n \<le> 90 then char_of (n + 32) else c)"

definition upper_char :: "char \<Rightarrow> char" where
  "upper_char c =
     (let n = (of_char c :: nat) in if 97 \<le> n \<and> n \<le> 122 then char_of (n - 32) else c)"

definition lower :: "string \<Rightarrow> string" where
  "lower s = map lower_char s"

definition upper :: "string \<Rightarrow> string" where
  "upper s = map upper_char s"

section \<open>Exceptions\<close>

text \<open>
  One constructor per exception the modelled code can raise. Where the message is
  built with \<open>{!r}\<close> the constructor keeps the formatted argument instead of its
  \<open>repr\<close>:
  \<^item> \<open>ValueError_too_ambiguous v\<close> is \<open>ValueError('too ambiguous input {!r}'.format(v))\<close>;
  \<^item> \<open>ValueError_invalid_datacube t\<close> is
    \<open>ValueError('invalid datacube of type {!r}'.format(t))\<close>, and likewise for spectra;
  \<^item> \<open>ValueError_reshape\<close> is numpy's error for a reshape to a shape of another size,
    \<open>ValueError_not_in_list v\<close> is \<open>list.index\<close>'s for a value that is not in the
    list, \<open>ValueError_invalid_version s\<close> is \<open>StrictVersion\<close>'s for a string it cannot
    parse;
  \<^item> \<open>MarvinError msg\<close> is \<open>marvin.core.exceptions.MarvinError(msg)\<close>;
  \<^item> \<open>AttributeError a\<close>, \<open>KeyError k\<close>, \<open>IndexError\<close>, \<open>TypeError\<close> and
    \<open>UnboundLocalError v\<close> are the interpreter's own, for a missing attribute, a missing
    key, an index out of range, an operation the object does not support and a local read
    before assignment.
\<close>

datatype pytype = T_DataCube | T_Spectrum | T_str | T_int | T_NoneType

datatype error =
    ValueError_too_ambiguous string
  | ValueError_invalid_datacube pytype
  | ValueError_invalid_spectrum pytype
  | ValueError_reshape
  | MarvinError string
  | AttributeError string
  | KeyError string
  | IndexError
  | TypeError
  | UnboundLocalError string
  | ValueError_not_in_list string
  | ValueError_invalid_version string

section \<open>The DRP datamodel (utils/datamodel/drp/base.py)\<close>

type_synonym ref = nat

text \<open>
  \<open>DataCube\<close> and \<open>Spectrum\<close> are two classes with no common base; the attributes
  they share are the fields of \<open>entry_base\<close>, which both records extend. \<open>parent\<close> is
  the back-reference to the owning \<open>DRPDataModel\<close> object, kept as that object's
  identity; \<open>None\<close> before the entry is appended to a list, or when the list has no
  parent. \<open>unit\<close> is the astropy unit, kept as its string; \<open>scale\<close> is a number
  that the modelled code only stores; \<open>formats\<close> is the dict of display formats.
\<close>

record entry_base =
  name :: string
  extension_name :: string
  extension_wave :: "string option"
  unit :: string
  scale :: real
  formats :: "(string \<times> string) list"
  description :: string
  parent :: "ref option"

record DataCube = entry_base +
  extension_ivar :: "string option"
  extension_mask :: "string option"

record Spectrum = entry_base +
  extension_std :: "string option"

text \<open>
  \<open>DataCube.__init__\<close> and \<open>Spectrum.__init__\<close>; the constructors do not set
  \<open>parent\<close>.
\<close>

definition DataCube_init ::
  "string \<Rightarrow> string \<Rightarrow> string option \<Rightarrow> string option \<Rightarrow> string option \<Rightarrow> string \<Rightarrow>
   real \<Rightarrow> (string \<times> string) list \<Rightarrow> string \<Rightarrow> DataCube" where
  "DataCube_init nm ext wave iv mk u sc fmts descr =
     \<lparr>name = nm, extension_name = ext, extension_wave = wave, unit = u, scale = sc,
      formats = fmts, description = descr, parent = None,
      extension_ivar = iv, extension_mask = mk\<rparr>"

definition Spectrum_init ::
  "string \<Rightarrow> string \<Rightarrow> string option \<Rightarrow> string option \<Rightarrow> string \<Rightarrow>
   real \<Rightarrow> (string \<times> string) list \<Rightarrow> string \<Rightarrow> Spectrum" where
  "Spectrum_init nm ext wave std u sc fmts descr =
     \<lparr>name = nm, extension_name = ext, extension_wave = wave, unit = u, scale = sc,
      formats = fmts, description = descr, parent = None,
      extension_std = std\<rparr>"

text \<open>\<open>DataCube.full\<close> and \<open>Spectrum.full\<close>: \<open>self.extension_name.lower()\<close>.\<close>

definition full :: "'a entry_base_scheme \<Rightarrow> string" where
  "full e = lower (extension_name e)"

subsection \<open>FuzzyList\<close>

text \<open>
  Modelled from the spec: \<open>FuzzyList\<close> (marvin/utils/general/structs.py) is the base
  class of \<open>DataCubeList\<close> and \<open>SpectrumList\<close> and is not among the source files.
  Its lookup by a string follows section 4.1 of the specification: an exact
  case-insensitive match on the key returns that item; else a match in the alias table
  returns the aliased item; else the keys are matched by similarity, and exactly one
  candidate above the threshold is returned, none fails with NotFound and more than one
  fails with Ambiguous. The similarity test (score above the threshold) is the parameter
  \<open>similar\<close>, applied to the query and a key; \<open>mapper\<close> is the key extraction function
  that the subclasses pass to the constructor; the alias table maps an alias to a key.
\<close>

datatype fuzzy_error = NotFound | Ambiguous

text \<open>
  Modelled from the spec: the candidates of the fuzzy match, the items whose key passes
  the similarity test with the query (section 4.1; \<open>FuzzyList\<close> is not among the
  source files).
\<close>

definition FuzzyList_candidates ::
  "(string \<Rightarrow> string \<Rightarrow> bool) \<Rightarrow> ('a \<Rightarrow> string) \<Rightarrow> 'a list \<Rightarrow> string \<Rightarrow> 'a list" where
  "FuzzyList_candidates similar mapper xs query =
     filter (\<lambda>x. similar query (mapper x)) xs"

text \<open>
  Modelled from the spec: the lookup \<open>the_list[query]\<close> of a \<open>FuzzyList\<close> by a
  string, in the three stages of section 4.1 (\<open>FuzzyList\<close> is not among the source
  files).
\<close>

definition FuzzyList_getitem ::
  "(string \<Rightarrow> string \<Rightarrow> bool) \<Rightarrow> (string \<times> string) list \<Rightarrow> ('a \<Rightarrow> string) \<Rightarrow>
   'a list \<Rightarrow> string \<Rightarrow> fuzzy_error + 'a" where
  "FuzzyList_getitem similar alias_table mapper xs query =
     (case List.find (\<lambda>x. lower (mapper x) = lower query) xs of
        Some x \<Rightarrow> Inr x
      | None \<Rightarrow>
          (case List.find (\<lambda>x. map_of alias_table query = Some (mapper x)) xs of
             Some x \<Rightarrow> Inr x
           | None \<Rightarrow>
               (case FuzzyList_candidates similar mapper xs query of
                  [] \<Rightarrow> Inl NotFound
                | [x] \<Rightarrow> Inr x
                | _ \<Rightarrow> Inl Ambiguous)))"

subsection \<open>DRPDataModel\<close>

text \<open>
  \<open>datacubes\<close> and \<open>spectra\<close> are the elements of \<open>self.datacubes\<close> and
  \<open>self.spectra\<close>, in list order. Both lists are built by the constructors
  \<open>DataCubeList(datacubes, parent=self)\<close> and \<open>SpectrumList(spectra, parent=self)\<close>
  with the key \<open>mapper=lambda xx: xx.full()\<close> and no alias table.
\<close>

record DRPDataModel =
  release :: string
  aliases :: "string list"
  datacubes :: "DataCube list"
  spectra :: "Spectrum list"

text \<open>
  \<open>DRPDataModel.__init__(release, datacubes, spectra, aliases)\<close>, for lists of
  datacubes and of spectra: each list constructor appends a copy of every item, with
  the copy's \<open>parent\<close> set to the new datamodel (see \<open>append\<close> below); \<open>self_id\<close>
  is the identity of the new datamodel.
\<close>

definition adopted :: "ref \<Rightarrow> 'a entry_base_scheme \<Rightarrow> 'a entry_base_scheme" where
  "adopted self_id e = e\<lparr>parent := Some self_id\<rparr>"

definition DRPDataModel_init ::
  "ref \<Rightarrow> string \<Rightarrow> DataCube list \<Rightarrow> Spectrum list \<Rightarrow> string list \<Rightarrow> DRPDataModel" where
  "DRPDataModel_init self_id rel dcs sps als =
     \<lparr>release = rel, aliases = als,
      datacubes = map (adopted self_id) dcs, spectra = map (adopted self_id) sps\<rparr>"

text \<open>The result of a lookup is a datacube or a spectrum.\<close>

datatype entry = A_DataCube DataCube | A_Spectrum Spectrum

text \<open>
  \<open>names.index(value)\<close>: the first position of the value. Python raises ValueError
  for a value that is not in the list; every call below comes after a membership test.
\<close>

fun index :: "'a list \<Rightarrow> 'a \<Rightarrow> nat" where
  "index [] v = 0"
| "index (x # xs) v = (if x = v then 0 else Suc (index xs v))"

text \<open>
  \<open>DRPDataModel.__eq__\<close>. The two \<open>try ... except ValueError\<close> blocks turn a failed
  list lookup, of either kind, into \<open>None\<close>; the final \<open>if/elif\<close> chain is the case
  distinction on the two matches.
\<close>

definition DRPDataModel_eq ::
  "(string \<Rightarrow> string \<Rightarrow> bool) \<Rightarrow> DRPDataModel \<Rightarrow> string \<Rightarrow> error + entry" where
  "DRPDataModel_eq similar self v =
     (let datacube_names = map name (datacubes self);
          spectrum_names = map name (spectra self)
      in if v \<in> set datacube_names then
           Inr (A_DataCube (datacubes self ! index datacube_names v))
         else if v \<in> set spectrum_names then
           Inr (A_Spectrum (spectra self ! index spectrum_names v))
         else
           (let datacube_best_match =
                  (case FuzzyList_getitem similar [] full (datacubes self) v of
                     Inr d \<Rightarrow> Some d | Inl _ \<Rightarrow> None);
                spectrum_best_match =
                  (case FuzzyList_getitem similar [] full (spectra self) v of
                     Inr s \<Rightarrow> Some s | Inl _ \<Rightarrow> None)
            in case (datacube_best_match, spectrum_best_match) of
                 (None, None) \<Rightarrow> Inl (ValueError_too_ambiguous v)
               | (Some d, Some s) \<Rightarrow> Inl (ValueError_too_ambiguous v)
               | (Some d, None) \<Rightarrow> Inr (A_DataCube d)
               | (None, Some s) \<Rightarrow> Inr (A_Spectrum s)))"

text \<open>\<open>DRPDataModel.__getitem__\<close>: \<open>return self == value\<close>.\<close>

definition DRPDataModel_getitem ::
  "(string \<Rightarrow> string \<Rightarrow> bool) \<Rightarrow> DRPDataModel \<Rightarrow> string \<Rightarrow> error + entry" where
  "DRPDataModel_getitem similar self v = DRPDataModel_eq similar self v"

text \<open>\<open>DRPDataModel.__contains__\<close>.\<close>

definition DRPDataModel_contains ::
  "(string \<Rightarrow> string \<Rightarrow> bool) \<Rightarrow> DRPDataModel \<Rightarrow> string \<Rightarrow> bool" where
  "DRPDataModel_contains similar self v =
     (case DRPDataModel_eq similar self v of Inr _ \<Rightarrow> True | Inl _ \<Rightarrow> False)"

subsection \<open>DataCubeList.append and SpectrumList.append\<close>

text \<open>
  \<open>append\<close> copies and mutates objects, so it is modelled over a store: \<open>objs\<close> maps
  an object's identity to its state and \<open>next_ref\<close> is the next free identity. The
  objects are datacubes, spectra and, for the values of other types that a caller can
  pass, strings, integers and \<open>None\<close>.
\<close>

datatype pyobj =
    Obj_DataCube DataCube
  | Obj_Spectrum Spectrum
  | Obj_str string
  | Obj_int int
  | Obj_None

fun type_of :: "pyobj \<Rightarrow> pytype" where
  "type_of (Obj_DataCube d) = T_DataCube"
| "type_of (Obj_Spectrum s) = T_Spectrum"
| "type_of (Obj_str s) = T_str"
| "type_of (Obj_int i) = T_int"
| "type_of Obj_None = T_NoneType"

record heap =
  objs :: "ref \<Rightarrow> pyobj"
  next_ref :: ref

text \<open>
  \<open>copy_mod.deepcopy(value)\<close>: a datacube or spectrum is copied to a new object with
  equal attributes; strings, integers and \<open>None\<close> are atomic and returned as they are.
  (The copy of whatever the old \<open>parent\<close> attribute reaches is dropped by the assignment
  that follows in \<open>append\<close> and is not kept in the store.)
\<close>

definition deepcopy :: "heap \<Rightarrow> ref \<Rightarrow> heap \<times> ref" where
  "deepcopy h r =
     (case objs h r of
        Obj_DataCube d \<Rightarrow>
          (h\<lparr>objs := (objs h)(next_ref h := Obj_DataCube d), next_ref := Suc (next_ref h)\<rparr>,
           next_ref h)
      | Obj_Spectrum s \<Rightarrow>
          (h\<lparr>objs := (objs h)(next_ref h := Obj_Spectrum s), next_ref := Suc (next_ref h)\<rparr>,
           next_ref h)
      | _ \<Rightarrow> (h, r))"

text \<open>
  \<open>append_obj.parent = p\<close>: instances of the two classes take the attribute; a string,
  an integer or \<open>None\<close> has no instance dict and the assignment raises AttributeError.
\<close>

definition set_parent :: "heap \<Rightarrow> ref \<Rightarrow> ref option \<Rightarrow> error + heap" where
  "set_parent h r p =
     (case objs h r of
        Obj_DataCube d \<Rightarrow> Inr (h\<lparr>objs := (objs h)(r := Obj_DataCube (d\<lparr>parent := p\<rparr>))\<rparr>)
      | Obj_Spectrum s \<Rightarrow> Inr (h\<lparr>objs := (objs h)(r := Obj_Spectrum (s\<lparr>parent := p\<rparr>))\<rparr>)
      | _ \<Rightarrow> Inl (AttributeError ''parent''))"

text \<open>
  A \<open>DataCubeList\<close> or \<open>SpectrumList\<close> instance: \<open>self.parent\<close> and the elements, as
  object identities.
\<close>

record entry_list =
  list_parent :: "ref option"
  list_items :: "ref list"

text \<open>
  \<open>DataCubeList.append(self, value, copy)\<close>. The result is the store and the list
  after the call, and the exception raised, if any.
\<close>

definition DataCubeList_append ::
  "heap \<Rightarrow> entry_list \<Rightarrow> ref \<Rightarrow> bool \<Rightarrow> (heap \<times> entry_list) \<times> error option" where
  "DataCubeList_append h self v copy =
     (case (if copy = False then (h, v) else deepcopy h v) of (h1, append_obj) \<Rightarrow>
        (case set_parent h1 append_obj (list_parent self) of
           Inl e \<Rightarrow> ((h1, self), Some e)
         | Inr h2 \<Rightarrow>
             if type_of (objs h2 append_obj) = T_DataCube
             then ((h2, self\<lparr>list_items := list_items self @ [append_obj]\<rparr>), None)
             else ((h2, self),
                   Some (ValueError_invalid_datacube (type_of (objs h2 append_obj))))))"

definition SpectrumList_append ::
  "heap \<Rightarrow> entry_list \<Rightarrow> ref \<Rightarrow> bool \<Rightarrow> (heap \<times> entry_list) \<times> error option" where
  "SpectrumList_append h self v copy =
     (case (if copy = False then (h, v) else deepcopy h v) of (h1, append_obj) \<Rightarrow>
        (case set_parent h1 append_obj (list_parent self) of
           Inl e \<Rightarrow> ((h1, self), Some e)
         | Inr h2 \<Rightarrow>
             if type_of (objs h2 append_obj) = T_Spectrum
             then ((h2, self\<lparr>list_items := list_items self @ [append_obj]\<rparr>), None)
             else ((h2, self),
                   Some (ValueError_invalid_spectrum (type_of (objs h2 append_obj))))))"

section \<open>Numpy arrays\<close>

text \<open>
  An array is a scalar or a sequence of arrays. \<open>a[i]\<close> with an integer takes the
  \<open>i\<close>-th sub-array and raises IndexError out of range or on a scalar.
\<close>

datatype 'v ndarray = Scalar 'v | Arr "'v ndarray list"

fun ndarray_getitem :: "'v ndarray \<Rightarrow> nat \<Rightarrow> error + 'v ndarray" where
  "ndarray_getitem (Scalar x) i = Inl IndexError"
| "ndarray_getitem (Arr xs) i = (if i < length xs then Inr (xs ! i) else Inl IndexError)"

text \<open>
  \<open>numpy.argsort(ks)\<close> is taken from outside (the field \<open>argsort\<close> of the environment
  below): its default sort is not stable, and the order in which it returns the indices
  of equal keys is the implementation's. What numpy documents of the result is
  \<open>is_argsort\<close>: a permutation of the indices of \<open>ks\<close> that puts the keys in ascending
  order.
\<close>

definition is_argsort :: "int list \<Rightarrow> nat list \<Rightarrow> bool" where
  "is_argsort ks order \<longleftrightarrow>
     mset order = mset [0..<length ks] \<and> sorted (map (\<lambda>i. ks ! i) order)"

text \<open>
  \<open>a[order]\<close> for a one-dimensional \<open>a\<close> and an index array \<open>order\<close>; numpy raises
  IndexError for an index out of range.
\<close>

definition take_order :: "'v list \<Rightarrow> nat list \<Rightarrow> error + 'v list" where
  "take_order xs order =
     (if list_all (\<lambda>i. i < length xs) order then Inr (map (\<lambda>i. xs ! i) order)
      else Inl IndexError)"

text \<open>
  \<open>a.reshape(shape)\<close> of a one-dimensional \<open>a\<close> to a two-dimensional shape, in
  row-major (raster) order; numpy raises ValueError when the sizes differ.
\<close>

definition reshape :: "nat \<times> nat \<Rightarrow> 'v list \<Rightarrow> error + 'v ndarray" where
  "reshape sh xs =
     (case sh of (r, c) \<Rightarrow>
        if length xs = r * c
        then Inr (Arr (map (\<lambda>i. Arr (map Scalar (take c (drop (i * c) xs)))) [0..<r]))
        else Inl ValueError_reshape)"

section \<open>The Maps object and its backends\<close>

text \<open>
  The classes \<open>Maps\<close> and \<open>MapsProperty\<close>, the configuration and the API client are
  not in map.py; \<open>Map\<close> reads them through the attributes below.

  \<open>MapsProperty\<close>: \<open>p_name\<close>, \<open>p_channels\<close>, \<open>p_ivar\<close>, \<open>p_mask\<close> and \<open>p_unit\<close> are
  the attributes \<open>name\<close>, \<open>channels\<close> (a list or \<open>None\<close>), \<open>ivar\<close>, \<open>mask\<close> and
  \<open>unit\<close> (one unit, possibly \<open>None\<close>, or a list with one unit per channel).
\<close>

datatype unit_attr = OneUnit "string option" | UnitList "string list"

record MapsProperty =
  p_name :: string
  p_channels :: "string list option"
  p_ivar :: bool
  p_mask :: bool
  p_unit :: unit_attr

text \<open>
  The file backend: \<open>maps.data\<close> is an HDU list, read by extension name
  (\<open>None\<close>: no such extension, a KeyError); an HDU has a header and a data array.
\<close>

type_synonym fits_header = "(string \<times> string) list"

record 'v hdu =
  hdu_header :: fits_header
  hdu_data :: "'v ndarray"

text \<open>
  The DB backend: \<open>maps.data\<close> is a row with the spaxel tables \<open>spaxelprops\<close> and
  \<open>spaxelprops5\<close> and the header table \<open>hdus\<close>. A spaxel row has its
  \<open>spaxel_index\<close> and one attribute per column (\<open>None\<close>: no such attribute); a header
  row has \<open>extname.name\<close> and \<open>header_to_dict()\<close>.
\<close>

record 'v spaxelprop =
  spaxel_index :: int
  columns :: "string \<Rightarrow> 'v option"

record db_hdu =
  extname_name :: string
  header_to_dict :: fits_header

record 'v db_file =
  spaxelprops :: "'v spaxelprop list"
  spaxelprops5 :: "'v spaxelprop list"
  hdus :: "db_hdu list"

datatype 'v maps_data =
    HDUList "string \<Rightarrow> 'v hdu option"
  | DBFile "'v db_file"
  | NoData

text \<open>
  \<open>Maps\<close>: \<open>maps_shape\<close> is \<open>maps.shape\<close>; \<open>properties\<close> is the lookup
  \<open>maps.properties[name]\<close>, which gives \<open>None\<close> for a name with no entry (the
  constructor tests the result against \<open>None\<close>); \<open>drpver\<close> and \<open>dapver\<close> are
  \<open>maps._drpver\<close> and \<open>maps._dapver\<close>.
\<close>

record 'v Maps =
  maps_shape :: "nat \<times> nat"
  properties :: "string \<Rightarrow> MapsProperty option"
  data_origin :: string
  data :: "'v maps_data"
  plateifu :: string
  drpver :: string
  dapver :: string

text \<open>
  The API backend: the payload \<open>response.getData()\<close> is a dict; a field is \<open>None\<close>
  when the key is absent (a KeyError on access). \<open>results\<close> is \<open>response.results\<close>,
  each value as \<open>str\<close> formats it.
\<close>

record 'v getmap_data =
  d_value :: "'v ndarray option"
  d_ivar :: "'v ndarray option"
  d_mask :: "'v ndarray option"
  d_unit :: "string option"
  d_header :: "fits_header option"

record 'v response =
  getData :: "'v getmap_data option"
  results :: "string \<Rightarrow> string option"

text \<open>
  What the loaders take from outside map.py:
  \<^item> \<open>StrictVersion s\<close>: the version tuple \<open>distutils.version.StrictVersion(s)\<close> parses,
    \<open>None\<close> when it raises ValueError; versions compare by their tuples, and against a
    version without pre-release tag \<open>\<le>\<close> depends on the tuple only;
  \<^item> \<open>fullname p channel ext\<close>: \<open>MapsProperty.fullname(channel=channel, ext=ext)\<close>, the
    name of the DB column;
  \<^item> \<open>getmap_url name path\<close>: \<open>marvin.config.urlmap['api']['getmap']['url']\<close> formatted
    with \<open>name\<close> and \<open>path\<close>;
  \<^item> \<open>Interaction url params\<close>: the request \<open>marvin.api.api.Interaction(url, params)\<close>;
    \<open>Inl msg\<close> is an exception \<open>ee\<close> raised by it, with \<open>str(ee) = msg\<close>;
  \<^item> \<open>argsort ks\<close>: \<open>numpy.argsort(ks)\<close>, see \<open>is_argsort\<close>.
\<close>

record 'v env =
  StrictVersion :: "string \<Rightarrow> (nat \<times> nat \<times> nat) option"
  fullname :: "MapsProperty \<Rightarrow> string option \<Rightarrow> string option \<Rightarrow> string"
  getmap_url :: "string \<Rightarrow> string \<Rightarrow> string"
  Interaction :: "string \<Rightarrow> (string \<times> string) list \<Rightarrow> string + 'v response"
  argsort :: "int list \<Rightarrow> nat list"

definition version_le :: "nat \<times> nat \<times> nat \<Rightarrow> nat \<times> nat \<times> nat \<Rightarrow> bool" where
  "version_le a b =
     (case (a, b) of ((a1, a2, a3), (b1, b2, b3)) \<Rightarrow>
        a1 < b1 \<or> (a1 = b1 \<and> (a2 < b2 \<or> (a2 = b2 \<and> a3 \<le> b3))))"

section \<open>Map (tools/map.py)\<close>

text \<open>
  The attributes of a \<open>Map\<close>: \<open>map_value\<close>, \<open>map_ivar\<close>, \<open>map_mask\<close>,
  \<open>map_header\<close> and \<open>map_unit\<close> are \<open>self.value\<close>, \<open>self.ivar\<close>, \<open>self.mask\<close>,
  \<open>self.header\<close> and \<open>self.unit\<close>; the others have the source's names. A header is
  kept as its list of cards: \<open>fits.Header(d)\<close> of a dict \<open>d\<close> is \<open>d\<close>.
\<close>

record 'v Map_obj =
  maps :: "'v Maps"
  property_name :: string
  channel :: "string option"
  shape :: "nat \<times> nat"
  maps_property :: MapsProperty
  map_value :: "'v ndarray option"
  map_ivar :: "'v ndarray option"
  map_mask :: "'v ndarray option"
  map_header :: "fits_header option"
  map_unit :: "string option"

datatype warning = MarvinUserWarning string

subsection \<open>\<open>_load_map_from_file\<close>\<close>

text \<open>
  \<open>channel_idx = self.maps_property.channels.index(self.channel)\<close>, computed when the
  channel is not \<open>None\<close>; the result is \<open>None\<close> when the variable stays unassigned.
\<close>

definition channel_idx_of :: "'v Map_obj \<Rightarrow> error + nat option" where
  "channel_idx_of self =
     (case channel self of
        None \<Rightarrow> Inr None
      | Some ch \<Rightarrow>
          (case p_channels (maps_property self) of
             None \<Rightarrow> Inl (AttributeError ''index'')
           | Some chs \<Rightarrow>
               if ch \<in> set chs then Inr (Some (index chs ch))
               else Inl (ValueError_not_in_list ch)))"

text \<open>
  \<open>self.maps.data[ext].data[channel_idx]\<close> with a channel, \<open>self.maps.data[ext].data\<close>
  without.
\<close>

definition file_array ::
  "(string \<Rightarrow> 'v hdu option) \<Rightarrow> string \<Rightarrow> nat option \<Rightarrow> error + 'v ndarray" where
  "file_array hdulist ext idx =
     (case hdulist ext of
        None \<Rightarrow> Inl (KeyError ext)
      | Some h \<Rightarrow>
          (case idx of
             None \<Rightarrow> Inr (hdu_data h)
           | Some i \<Rightarrow> ndarray_getitem (hdu_data h) i))"

text \<open>An array that is read only when \<open>flag\<close> is set, and stays \<open>None\<close> otherwise.\<close>

definition when_flag :: "bool \<Rightarrow> error + 'a \<Rightarrow> error + 'a option" where
  "when_flag flag r =
     (if flag then (case r of Inl e \<Rightarrow> Inl e | Inr a \<Rightarrow> Inr (Some a)) else Inr None)"

definition file_unit :: "unit_attr \<Rightarrow> nat option \<Rightarrow> error + string option" where
  "file_unit u idx =
     (case u of
        UnitList us \<Rightarrow>
          (case idx of
             None \<Rightarrow> Inl (UnboundLocalError ''channel_idx'')
           | Some i \<Rightarrow> if i < length us then Inr (Some (us ! i)) else Inl IndexError)
      | OneUnit x \<Rightarrow> Inr x)"

definition load_map_from_file :: "'v Map_obj \<Rightarrow> error + 'v Map_obj" where
  "load_map_from_file self =
     (case data (maps self) of
        HDUList hdulist \<Rightarrow>
          (case hdulist (property_name self) of
             None \<Rightarrow> Inl (KeyError (property_name self))
           | Some h \<Rightarrow>
          (case channel_idx_of self of
             Inl e \<Rightarrow> Inl e
           | Inr idx \<Rightarrow>
          (case file_array hdulist (property_name self) idx of
             Inl e \<Rightarrow> Inl e
           | Inr v \<Rightarrow>
          (case when_flag (p_ivar (maps_property self))
                  (file_array hdulist (property_name self @ ''_ivar'') idx) of
             Inl e \<Rightarrow> Inl e
           | Inr iv \<Rightarrow>
          (case when_flag (p_mask (maps_property self))
                  (file_array hdulist (property_name self @ ''_mask'') idx) of
             Inl e \<Rightarrow> Inl e
           | Inr mk \<Rightarrow>
          (case file_unit (p_unit (maps_property self)) idx of
             Inl e \<Rightarrow> Inl e
           | Inr u \<Rightarrow>
               Inr (self\<lparr>map_header := Some (hdu_header h), map_value := Some v,
                          map_ivar := iv, map_mask := mk, map_unit := u\<rparr>)))))))
      | _ \<Rightarrow> Inl TypeError)"

subsection \<open>\<open>_load_map_from_db\<close>\<close>

text \<open>\<open>[getattr(spaxel, col) for spaxel in spaxels]\<close>.\<close>

fun getattrs :: "'v spaxelprop list \<Rightarrow> string \<Rightarrow> error + 'v list" where
  "getattrs [] col = Inr []"
| "getattrs (s # ss) col =
     (case columns s col of
        None \<Rightarrow> Inl (AttributeError col)
      | Some x \<Rightarrow> (case getattrs ss col of Inl e \<Rightarrow> Inl e | Inr xs \<Rightarrow> Inr (x # xs)))"

text \<open>
  \<open>numpy.array([getattr(spaxel, fullname) for spaxel in spaxels])[spaxel_order]
  .reshape(self.shape)\<close> for the column of extension \<open>ext\<close>.
\<close>

definition db_array ::
  "'v env \<Rightarrow> 'v Map_obj \<Rightarrow> 'v spaxelprop list \<Rightarrow> nat list \<Rightarrow> string option \<Rightarrow>
   error + 'v ndarray" where
  "db_array E self spaxels spaxel_order ext =
     (case getattrs spaxels (fullname E (maps_property self) (channel self) ext) of
        Inl e \<Rightarrow> Inl e
      | Inr xs \<Rightarrow>
          (case take_order xs spaxel_order of
             Inl e \<Rightarrow> Inl e
           | Inr ys \<Rightarrow> reshape (shape self) ys))"

text \<open>
  The header loop: the first HDU row whose extension name equals the property's name,
  both upper-cased.
\<close>

definition db_header_dict :: "'v Map_obj \<Rightarrow> db_hdu list \<Rightarrow> fits_header option" where
  "db_header_dict self hs =
     (case List.find (\<lambda>h. upper (p_name (maps_property self)) = upper (extname_name h)) hs of
        None \<Rightarrow> None
      | Some h \<Rightarrow> Some (header_to_dict h))"

definition load_map_from_db ::
  "'v env \<Rightarrow> 'v Map_obj \<Rightarrow> error + ('v Map_obj \<times> warning list)" where
  "load_map_from_db E self =
     (case StrictVersion E (dapver (maps self)) of
        None \<Rightarrow> Inl (ValueError_invalid_version (dapver (maps self)))
      | Some ver \<Rightarrow>
     (case data (maps self) of
        DBFile db \<Rightarrow>
          (let spaxels = (if version_le ver (1, 1, 1) then spaxelprops db
                          else spaxelprops5 db);
               spaxel_order = argsort E (map spaxel_index spaxels)
           in
          (case db_array E self spaxels spaxel_order None of
             Inl e \<Rightarrow> Inl e
           | Inr v \<Rightarrow>
          (case when_flag (p_ivar (maps_property self))
                  (db_array E self spaxels spaxel_order (Some ''ivar'')) of
             Inl e \<Rightarrow> Inl e
           | Inr iv \<Rightarrow>
          (case when_flag (p_mask (maps_property self))
                  (db_array E self spaxels spaxel_order (Some ''mask'')) of
             Inl e \<Rightarrow> Inl e
           | Inr mk \<Rightarrow>
              (let self' = self\<lparr>map_value := Some v, map_ivar := iv, map_mask := mk\<rparr>;
                   header_dict = db_header_dict self (hdus db)
               in if header_dict = None \<or> header_dict = Some []
                  then Inr (self',
                            [MarvinUserWarning (''cannot find the header for property '' @
                               p_name (maps_property self) @ ''.'')])
                  else Inr (self'\<lparr>map_header := header_dict\<rparr>, []))))))
      | _ \<Rightarrow>
          Inl (AttributeError
                 (if version_le ver (1, 1, 1) then ''spaxelprops'' else ''spaxelprops5''))))"

subsection \<open>\<open>_load_map_from_api\<close>\<close>

text \<open>\<open>'{0}'.format(x)\<close> for a string or \<open>None\<close>.\<close>

definition str_of :: "string option \<Rightarrow> string" where
  "str_of x = (case x of None \<Rightarrow> ''None'' | Some s \<Rightarrow> s)"

text \<open>
  The request the loader issues: the URL with the plate-IFU and the path
  \<open>'property_name={0}/channel={1}'.format(self.property_name, self.channel)\<close>, and
  the two versions as parameters.
\<close>

definition getmap_request :: "'v env \<Rightarrow> 'v Map_obj \<Rightarrow> string + 'v response" where
  "getmap_request E self =
     (let url_full = getmap_url E (plateifu (maps self))
                       (''property_name='' @ property_name self @ ''/channel='' @
                        str_of (channel self))
      in Interaction E url_full
           [(''drpver'', drpver (maps self)), (''dapver'', dapver (maps self))])"

definition load_map_from_api :: "'v env \<Rightarrow> 'v Map_obj \<Rightarrow> error + 'v Map_obj" where
  "load_map_from_api E self =
     (case getmap_request E self of
        Inl msg \<Rightarrow> Inl (MarvinError (''found a problem when getting the map: '' @ msg))
      | Inr response \<Rightarrow>
          (case getData response of
             None \<Rightarrow>
               (case results response ''error'' of
                  None \<Rightarrow> Inl (KeyError ''error'')
                | Some err \<Rightarrow> Inl (MarvinError (''something went wrong. Error is: '' @ err)))
           | Some d \<Rightarrow>
          (case d_value d of None \<Rightarrow> Inl (KeyError ''value'') | Some v \<Rightarrow>
          (case d_ivar d of None \<Rightarrow> Inl (KeyError ''ivar'') | Some iv \<Rightarrow>
          (case d_mask d of None \<Rightarrow> Inl (KeyError ''mask'') | Some mk \<Rightarrow>
          (case d_unit d of None \<Rightarrow> Inl (KeyError ''unit'') | Some u \<Rightarrow>
          (case d_header d of None \<Rightarrow> Inl (KeyError ''header'') | Some hdr \<Rightarrow>
             Inr (self\<lparr>map_value := Some v, map_ivar := Some iv, map_mask := Some mk,
                        map_unit := Some u, map_header := Some hdr\<rparr>))))))))"

subsection \<open>\<open>Map.__init__\<close>\<close>

text \<open>\<open>channel.lower() if channel else None\<close>: \<open>None\<close> and the empty string give \<open>None\<close>.\<close>

definition lower_channel :: "string option \<Rightarrow> string option" where
  "lower_channel ch =
     (case ch of None \<Rightarrow> None | Some c \<Rightarrow> if c = [] then None else Some (lower c))"

text \<open>\<open>self.channel not in self.maps_property.channels\<close>.\<close>

definition channel_not_in :: "string option \<Rightarrow> string list \<Rightarrow> bool" where
  "channel_not_in ch chs = (case ch of None \<Rightarrow> True | Some c \<Rightarrow> c \<notin> set chs)"

definition invalid_combination :: error where
  "invalid_combination = MarvinError ''invalid combination of property name and channel.''"

definition Map_init ::
  "'v env \<Rightarrow> 'v Maps \<Rightarrow> string \<Rightarrow> string option \<Rightarrow> error + ('v Map_obj \<times> warning list)" where
  "Map_init E mps pname ch =
     (let pn = lower pname; c = lower_channel ch
      in case properties mps pn of
           None \<Rightarrow> Inl invalid_combination
         | Some mp \<Rightarrow>
             if (case p_channels mp of None \<Rightarrow> False | Some chs \<Rightarrow> channel_not_in c chs)
             then Inl invalid_combination
             else
               (let self = \<lparr>maps = mps, property_name = pn, channel = c,
                            shape = maps_shape mps, maps_property = mp,
                            map_value = None, map_ivar = None, map_mask = None,
                            map_header = None, map_unit = None\<rparr>
                in if data_origin mps = ''file'' then
                     (case load_map_from_file self of
                        Inl e \<Rightarrow> Inl e | Inr m \<Rightarrow> Inr (m, []))
                   else if data_origin mps = ''db'' then load_map_from_db E self
                   else if data_origin mps = ''api'' then
                     (case load_map_from_api E self of
                        Inl e \<Rightarrow> Inl e | Inr m \<Rightarrow> Inr (m, []))
                   else Inr (self, [])))"

text \<open>The object that a call of the constructor has built, \<open>None\<close> when it raised.\<close>

definition constructed :: "error + ('v Map_obj \<times> warning list) \<Rightarrow> 'v Map_obj option" where
  "constructed r = (case r of Inl e \<Rightarrow> None | Inr (m, w) \<Rightarrow> Some m)"

section \<open>The specification's reading of the DB loader\<close>

text \<open>
  The array the specification describes for a column of the DB backend: the
  per-spaxel values of the column, the rows taken in ascending order of
  \<open>spaxel_index\<close>, reshaped to the spatial shape. Rows of equal index are left in the
  order of the list; where the indices are distinct there is one ascending order only.
\<close>

definition spec_raster_array ::
  "'v spaxelprop list \<Rightarrow> string \<Rightarrow> nat \<times> nat \<Rightarrow> error + 'v ndarray" where
  "spec_raster_array rows col sh =
     (case getattrs (sort_key spaxel_index rows) col of
        Inl e \<Rightarrow> Inl e
      | Inr vals \<Rightarrow> reshape sh vals)"

section \<open>Example objects\<close>

subsection \<open>Datamodels\<close>

definition example_datacube :: DataCube where
  "example_datacube =
     DataCube_init ''flux'' ''FLUX'' None (Some ''IVAR'') (Some ''MASK'') ''1e-17 erg'' 1 []
       ''3D rectified cube''"

definition example_spectrum :: Spectrum where
  "example_spectrum =
     Spectrum_init ''flux'' ''FLUX'' (Some ''WAVE'') None ''Angstrom'' 1 [] []"

definition disp_datacube :: DataCube where
  "disp_datacube =
     DataCube_init ''dispersion'' ''DISP'' None None None ''Angstrom'' 1 [] []"

definition predisp_datacube :: DataCube where
  "predisp_datacube =
     DataCube_init ''dispersion_prepixel'' ''DISPPRE'' None None None ''Angstrom'' 1 [] []"

definition specres_spectrum :: Spectrum where
  "specres_spectrum =
     Spectrum_init ''spectral_resolution'' ''SPECRES'' None None ''Angstrom'' 1 [] []"

definition dispmed_spectrum :: Spectrum where
  "dispmed_spectrum =
     Spectrum_init ''median_dispersion'' ''DISPMED'' None None ''Angstrom'' 1 [] []"

text \<open>
  Three datamodels, of identity 7, as the constructor builds them; the first has a
  datacube and a spectrum that share the name \<open>flux\<close>.
\<close>

definition example_model :: DRPDataModel where
  "example_model = DRPDataModel_init 7 ''MPL-6'' [example_datacube] [example_spectrum] []"

definition dispersion_model :: DRPDataModel where
  "dispersion_model = DRPDataModel_init 7 ''MPL-6'' [disp_datacube] [dispmed_spectrum] []"

definition full_model :: DRPDataModel where
  "full_model =
     DRPDataModel_init 7 ''MPL-6'' [example_datacube, disp_datacube, predisp_datacube]
       [specres_spectrum, dispmed_spectrum] []"

text \<open>A similarity test for the examples: the query is a prefix of the key.\<close>

definition prefix_similar :: "string \<Rightarrow> string \<Rightarrow> bool" where
  "prefix_similar q k = (take (length q) k = q)"

subsection \<open>Maps objects\<close>

text \<open>\<open>numpy.array\<close> of a list of rows, and of a list of such planes.\<close>

definition array2 :: "'v list list \<Rightarrow> 'v ndarray" where
  "array2 rows = Arr (map (\<lambda>row. Arr (map Scalar row)) rows)"

definition array3 :: "'v list list list \<Rightarrow> 'v ndarray" where
  "array3 planes = Arr (map array2 planes)"

text \<open>
  A property with two channels, \<open>oii_3727\<close> first and \<open>ha_6564\<close> second, and the
  same property with the channels listed in the other order.
\<close>

definition example_property :: MapsProperty where
  "example_property =
     \<lparr>p_name = ''emline_gflux'', p_channels = Some [''oii_3727'', ''ha_6564''],
      p_ivar = True, p_mask = True, p_unit = OneUnit (Some ''1e-17 erg/s/cm2/spaxel'')\<rparr>"

definition swapped_property :: MapsProperty where
  "swapped_property = example_property\<lparr>p_channels := Some [''ha_6564'', ''oii_3727'']\<rparr>"

definition registry_of :: "MapsProperty \<Rightarrow> string \<Rightarrow> MapsProperty option" where
  "registry_of p n = (if n = p_name p then Some p else None)"

text \<open>A column name as \<open>name[_ext][_channel]\<close>.\<close>

definition example_fullname :: "MapsProperty \<Rightarrow> string option \<Rightarrow> string option \<Rightarrow> string" where
  "example_fullname p ch ext =
     p_name p @ (case ext of None \<Rightarrow> [] | Some e \<Rightarrow> ''_'' @ e) @
     (case ch of None \<Rightarrow> [] | Some c \<Rightarrow> ''_'' @ c)"

text \<open>
  An argsort for the examples: the stable sort of the indices. It meets \<open>is_argsort\<close>,
  and on keys that are distinct it is the only function that does.
\<close>

definition stable_argsort :: "int list \<Rightarrow> nat list" where
  "stable_argsort ks = sort_key (\<lambda>i. ks ! i) [0..<length ks]"

definition example_env ::
  "(string \<Rightarrow> (string \<times> string) list \<Rightarrow> string + int response) \<Rightarrow> int env" where
  "example_env request =
     \<lparr>StrictVersion = (\<lambda>s. if s = ''2.0.2'' then Some (2, 0, 2) else None),
      fullname = example_fullname,
      getmap_url = (\<lambda>n path. ''/marvin/api/maps/'' @ n @ ''/map/'' @ path @ ''/''),
      Interaction = request, argsort = stable_argsort\<rparr>"

text \<open>
  The file: the extension of the property holds two planes; the plane of \<open>ha_6564\<close>
  is the second one.
\<close>

definition example_hdulist :: "string \<Rightarrow> int hdu option" where
  "example_hdulist =
     map_of
       [(''emline_gflux'',
         \<lparr>hdu_header = [(''EXTNAME'', ''EMLINE_GFLUX'')],
          hdu_data = array3 [[[1, 2], [3, 4]], [[5, 6], [7, 8]]]\<rparr>),
        (''emline_gflux_ivar'',
         \<lparr>hdu_header = [(''EXTNAME'', ''EMLINE_GFLUX_IVAR'')],
          hdu_data = array3 [[[10, 20], [30, 40]], [[50, 60], [70, 80]]]\<rparr>),
        (''emline_gflux_mask'',
         \<lparr>hdu_header = [(''EXTNAME'', ''EMLINE_GFLUX_MASK'')],
          hdu_data = array3 [[[0, 0], [0, 0]], [[0, 0], [0, 0]]]\<rparr>)]"

text \<open>
  The DB rows of the four spaxels, with the columns of \<open>ha_6564\<close>, returned in the
  order 2, 0, 3, 1 of their \<open>spaxel_index\<close>.
\<close>

definition example_row :: "int \<Rightarrow> int \<Rightarrow> int spaxelprop" where
  "example_row i v =
     \<lparr>spaxel_index = i,
      columns = map_of [(''emline_gflux_ha_6564'', v),
                        (''emline_gflux_ivar_ha_6564'', v * 10),
                        (''emline_gflux_mask_ha_6564'', 0)]\<rparr>"

definition example_rows :: "int spaxelprop list" where
  "example_rows = [example_row 2 7, example_row 0 5, example_row 3 8, example_row 1 6]"

definition example_db :: "db_hdu list \<Rightarrow> int db_file" where
  "example_db hs = \<lparr>spaxelprops = [], spaxelprops5 = example_rows, hdus = hs\<rparr>"

definition matching_hdus :: "db_hdu list" where
  "matching_hdus =
     [\<lparr>extname_name = ''STELLAR_VEL'', header_to_dict = [(''EXTNAME'', ''STELLAR_VEL'')]\<rparr>,
      \<lparr>extname_name = ''EMLINE_GFLUX'', header_to_dict = [(''EXTNAME'', ''EMLINE_GFLUX'')]\<rparr>]"

definition other_hdus :: "db_hdu list" where
  "other_hdus =
     [\<lparr>extname_name = ''STELLAR_VEL'', header_to_dict = [(''EXTNAME'', ''STELLAR_VEL'')]\<rparr>]"

definition example_payload :: "int getmap_data" where
  "example_payload =
     \<lparr>d_value = Some (array2 [[5, 6], [7, 8]]),
      d_ivar = Some (array2 [[50, 60], [70, 80]]),
      d_mask = Some (array2 [[0, 0], [0, 0]]),
      d_unit = Some ''1e-17 erg/s/cm2/spaxel'',
      d_header = Some [(''EXTNAME'', ''EMLINE_GFLUX'')]\<rparr>"

definition example_maps :: "string \<Rightarrow> int maps_data \<Rightarrow> MapsProperty \<Rightarrow> int Maps" where
  "example_maps origin dat p =
     \<lparr>maps_shape = (2, 2), properties = registry_of p, data_origin = origin, data = dat,
      plateifu = ''8485-1901'', drpver = ''v2_3_1'', dapver = ''2.0.2''\<rparr>"

text \<open>Three requests: one that succeeds, one that the server answers with an error, one that the transport fails.\<close>

definition request_ok :: "string \<Rightarrow> (string \<times> string) list \<Rightarrow> string + int response" where
  "request_ok url params = Inr \<lparr>getData = Some example_payload, results = Map.empty\<rparr>"

definition request_error :: "string \<Rightarrow> (string \<times> string) list \<Rightarrow> string + int response" where
  "request_error url params =
     Inr \<lparr>getData = None, results = [''error'' \<mapsto> ''no such plateifu'']\<rparr>"

definition request_fails :: "string \<Rightarrow> (string \<times> string) list \<Rightarrow> string + int response" where
  "request_fails url params = Inl ''Connection refused''"

text \<open>
  Two spaxel rows with the same \<open>spaxel_index\<close>, in the two orders in which the DB can
  return them, for a property without channels, ivar or mask; and the environment in
  which \<open>numpy.argsort\<close> answers with a given order.
\<close>

definition tie_property :: MapsProperty where
  "tie_property =
     \<lparr>p_name = ''stellar_vel'', p_channels = None, p_ivar = False, p_mask = False,
      p_unit = OneUnit (Some ''km/s'')\<rparr>"

definition tie_row :: "int \<Rightarrow> int spaxelprop" where
  "tie_row v = \<lparr>spaxel_index = 0, columns = map_of [(''stellar_vel'', v)]\<rparr>"

definition tie_maps :: "int spaxelprop list \<Rightarrow> int Maps" where
  "tie_maps rows =
     \<lparr>maps_shape = (1, 2), properties = registry_of tie_property, data_origin = ''db'',
      data = DBFile \<lparr>spaxelprops = [], spaxelprops5 = rows, hdus = []\<rparr>,
      plateifu = ''8485-1901'', drpver = ''v2_3_1'', dapver = ''2.0.2''\<rparr>"

definition env_with_order ::
  "(string \<Rightarrow> (string \<times> string) list \<Rightarrow> string + int response) \<Rightarrow> nat list \<Rightarrow> int env" where
  "env_with_order request order = (example_env request)\<lparr>argsort := (\<lambda>ks. order)\<rparr>"

text \<open>
  The object \<open>Map.__init__\<close> has built, before it loads, for the property
  \<open>emline_gflux\<close> and the channel \<open>ha_6564\<close>.
\<close>

definition example_self :: "int Maps \<Rightarrow> MapsProperty \<Rightarrow> int Map_obj" where
  "example_self mps p =
     \<lparr>maps = mps, property_name = ''emline_gflux'', channel = Some ''ha_6564'',
      shape = maps_shape mps, maps_property = p, map_value = None, map_ivar = None,
      map_mask = None, map_header = None, map_unit = None\<rparr>"

subsection \<open>A store\<close>

text \<open>
  A store with the string \<open>'flux'\<close>, a datacube and a spectrum, and an empty list whose
  parent is the datamodel of identity 7.
\<close>

definition example_heap :: heap where
  "example_heap =
     \<lparr>objs = (\<lambda>r. Obj_None)(0 := Obj_str ''flux'', 1 := Obj_DataCube example_datacube,
               2 := Obj_Spectrum example_spectrum),
      next_ref = 3\<rparr>"

definition example_list :: entry_list where
  "example_list = \<lparr>list_parent = Some 7, list_items = []\<rparr>"

section \<open>Evaluation of strings\<close>

lemmas str_eval = lower_def lower_char_def upper_def upper_char_def char_of_def bit_Suc_0_iff

lemmas example_defs = example_model_def example_datacube_def example_spectrum_def
  disp_datacube_def predisp_datacube_def specres_spectrum_def dispmed_spectrum_def
  dispersion_model_def full_model_def prefix_similar_def DataCube_init_def Spectrum_init_def
  DRPDataModel_init_def adopted_def

lemma lower_char_idem: "lower_char (lower_char c) = lower_char c"
  by (auto simp: lower_char_def Let_def)

lemma lower_idem: "lower (lower s) = lower s"
  by (simp add: lower_def lower_char_idem)

lemma lower_no_upper:
  "c \<in> set (lower s) \<Longrightarrow> \<not> (65 \<le> (of_char c :: nat) \<and> (of_char c :: nat) \<le> 90)"
  by (auto simp: lower_def lower_char_def Let_def)

lemma lower_Nil_iff: "lower s = [] \<longleftrightarrow> s = []"
  by (simp add: lower_def)

section \<open>Lookup in the DRP datamodel\<close>

lemma index_less: "v \<in> set xs \<Longrightarrow> index xs v < length xs"
  by (induction xs) auto

lemma nth_index: "v \<in> set xs \<Longrightarrow> xs ! index xs v = v"
  by (induction xs) auto

text \<open>\<open>index\<close> gives the first position of a value.\<close>

lemma index_first:
  "i < length xs \<Longrightarrow> (\<forall>j<i. xs ! j \<noteq> xs ! i) \<Longrightarrow> index xs (xs ! i) = i"
proof (induction xs arbitrary: i)
  case Nil
  then show ?case by simp
next
  case (Cons x xs)
  show ?case
  proof (cases i)
    case 0
    then show ?thesis by simp
  next
    case (Suc k)
    from Cons.prems(2) Suc have "x \<noteq> xs ! k" by fastforce
    moreover have "\<forall>j<k. xs ! j \<noteq> xs ! k"
      using Cons.prems(2) Suc by fastforce
    ultimately show ?thesis using Cons.IH[of k] Cons.prems(1) Suc by simp
  qed
qed

lemma index_map_first:
  assumes "i < length xs" and "\<forall>j<i. f (xs ! j) \<noteq> f (xs ! i)"
  shows "xs ! index (map f xs) (f (xs ! i)) = xs ! i"
proof -
  have "index (map f xs) (map f xs ! i) = i"
    using assms by (intro index_first) auto
  then show ?thesis using assms by simp
qed

lemma find_never: "List.find (\<lambda>x. False) xs = None"
  by (induction xs) auto

text \<open>
  With no alias table and no key equal to the query up to case, the list lookup is
  decided by the candidates of the similarity test.
\<close>

lemma FuzzyList_getitem_fuzzy_stage:
  assumes "List.find (\<lambda>x. lower (mapper x) = lower q) xs = None"
  shows "FuzzyList_getitem similar [] mapper xs q =
           (case FuzzyList_candidates similar mapper xs q of
              [] \<Rightarrow> Inl NotFound | [x] \<Rightarrow> Inr x | _ \<Rightarrow> Inl Ambiguous)"
  using assms by (simp add: FuzzyList_getitem_def find_never)

text \<open>
  A name that is the exact name of a datacube is answered with the first datacube of
  that name, before any other match is looked at.
\<close>

lemma DRPDataModel_getitem_exact_datacube:
  assumes "v \<in> set (map name (datacubes dm))"
  shows "\<exists>d. d \<in> set (datacubes dm) \<and> name d = v \<and>
             DRPDataModel_getitem similar dm v = Inr (A_DataCube d)"
proof -
  let ?d = "datacubes dm ! index (map name (datacubes dm)) v"
  have i: "index (map name (datacubes dm)) v < length (datacubes dm)"
    using index_less[OF assms] by simp
  have "name ?d = v"
    using nth_index[OF assms] i by simp
  moreover have "?d \<in> set (datacubes dm)"
    using i by simp
  moreover have "DRPDataModel_getitem similar dm v = Inr (A_DataCube ?d)"
    using assms by (simp add: DRPDataModel_getitem_def DRPDataModel_eq_def)
  ultimately show ?thesis by blast
qed

text \<open>
  C1, as stated, fails: in \<open>example_model\<close> the name \<open>flux\<close> is the name of a datacube
  and of a spectrum, and both lists resolve it, yet the lookup returns the datacube.
\<close>

theorem C1_counterexample:
  "''flux'' \<in> set (map name (datacubes example_model)) \<and>
   ''flux'' \<in> set (map name (spectra example_model)) \<and>
   FuzzyList_getitem prefix_similar [] full (datacubes example_model) ''flux'' =
     Inr (adopted 7 example_datacube) \<and>
   FuzzyList_getitem prefix_similar [] full (spectra example_model) ''flux'' =
     Inr (adopted 7 example_spectrum) \<and>
   DRPDataModel_getitem prefix_similar example_model ''flux'' =
     Inr (A_DataCube (adopted 7 example_datacube))"
  by (simp add: example_defs DRPDataModel_getitem_def DRPDataModel_eq_def
      FuzzyList_getitem_def FuzzyList_candidates_def full_def str_eval)

text \<open>
  C1, amended: for every registry and every query name that is not itself the exact
  name of a datacube or of a spectrum, if the name resolves to an entry in the datacubes
  and to an entry in the spectra, the lookup \<open>DRPDataModel.__getitem__\<close> fails with the
  ValueError \<open>too ambiguous input\<close> and returns neither entry.
\<close>

theorem C1_ambiguous_across_kinds:
  assumes "v \<notin> set (map name (datacubes dm))" and "v \<notin> set (map name (spectra dm))"
    and "FuzzyList_getitem similar [] full (datacubes dm) v = Inr d"
    and "FuzzyList_getitem similar [] full (spectra dm) v = Inr s"
  shows "DRPDataModel_getitem similar dm v = Inl (ValueError_too_ambiguous v)"
  using assms by (simp add: DRPDataModel_getitem_def DRPDataModel_eq_def)

theorem C1_ambiguous_across_kinds_witness:
  "''dis'' \<notin> set (map name (datacubes dispersion_model)) \<and>
   ''dis'' \<notin> set (map name (spectra dispersion_model)) \<and>
   FuzzyList_getitem prefix_similar [] full (datacubes dispersion_model) ''dis'' =
     Inr (adopted 7 disp_datacube) \<and>
   FuzzyList_getitem prefix_similar [] full (spectra dispersion_model) ''dis'' =
     Inr (adopted 7 dispmed_spectrum) \<and>
   DRPDataModel_getitem prefix_similar dispersion_model ''dis'' =
     Inl (ValueError_too_ambiguous ''dis'')"
proof -
  have 1: "''dis'' \<notin> set (map name (datacubes dispersion_model))"
    by (simp add: example_defs)
  have 2: "''dis'' \<notin> set (map name (spectra dispersion_model))"
    by (simp add: example_defs)
  have 3: "FuzzyList_getitem prefix_similar [] full (datacubes dispersion_model) ''dis'' =
      Inr (adopted 7 disp_datacube)"
    by (simp add: example_defs FuzzyList_getitem_def FuzzyList_candidates_def full_def str_eval)
  have 4: "FuzzyList_getitem prefix_similar [] full (spectra dispersion_model) ''dis'' =
      Inr (adopted 7 dispmed_spectrum)"
    by (simp add: example_defs FuzzyList_getitem_def FuzzyList_candidates_def full_def str_eval)
  show ?thesis
    using 1 2 3 4 C1_ambiguous_across_kinds [OF 1 2 3 4] by simp
qed

text \<open>
  C3, as stated, fails. With the query \<open>dis\<close>: \<open>example_model\<close> has no candidate in
  either kind and the lookup fails with the error \<open>too ambiguous input\<close>, the very error
  of \<open>dispersion_model\<close>, where one datacube and one spectrum match; and in
  \<open>full_model\<close> two datacubes match, yet the lookup does not fail: it returns the one
  matching spectrum.
\<close>

theorem C3_counterexample:
  "FuzzyList_candidates prefix_similar full (datacubes example_model) ''dis'' = [] \<and>
   FuzzyList_candidates prefix_similar full (spectra example_model) ''dis'' = [] \<and>
   DRPDataModel_getitem prefix_similar example_model ''dis'' =
     Inl (ValueError_too_ambiguous ''dis'') \<and>
   DRPDataModel_getitem prefix_similar dispersion_model ''dis'' =
     Inl (ValueError_too_ambiguous ''dis'') \<and>
   FuzzyList_candidates prefix_similar full (datacubes full_model) ''dis'' =
     [adopted 7 disp_datacube, adopted 7 predisp_datacube] \<and>
   DRPDataModel_getitem prefix_similar full_model ''dis'' =
     Inr (A_Spectrum (adopted 7 dispmed_spectrum))"
  by (simp add: example_defs DRPDataModel_getitem_def DRPDataModel_eq_def
      FuzzyList_getitem_def FuzzyList_candidates_def full_def str_eval)

text \<open>
  C3, amended: for every \<open>DRPDataModel\<close> lookup that reaches the fuzzy-match stage (the
  query is no entry's name and no key of either list up to case), the lookup returns
  the single candidate of one kind when the other kind has no candidate or more than
  one, and in every other case (no candidate in both kinds, one candidate in each, or
  more than one where the other kind has none or several) it fails with the one
  ValueError \<open>too ambiguous input\<close>. Zero matches and ambiguity are reported by the
  same error, and a kind with more than one candidate never contributes an entry.
\<close>

theorem C3_fuzzy_stage:
  assumes "v \<notin> set (map name (datacubes dm))" and "v \<notin> set (map name (spectra dm))"
    and "List.find (\<lambda>x. lower (full x) = lower v) (datacubes dm) = None"
    and "List.find (\<lambda>x. lower (full x) = lower v) (spectra dm) = None"
  shows "DRPDataModel_getitem similar dm v =
           (let cd = FuzzyList_candidates similar full (datacubes dm) v;
                cs = FuzzyList_candidates similar full (spectra dm) v
            in if length cd = 1 \<and> length cs \<noteq> 1 then Inr (A_DataCube (hd cd))
               else if length cs = 1 \<and> length cd \<noteq> 1 then Inr (A_Spectrum (hd cs))
               else Inl (ValueError_too_ambiguous v))"
proof -
  let ?cd = "FuzzyList_candidates similar full (datacubes dm) v"
  let ?cs = "FuzzyList_candidates similar full (spectra dm) v"
  have d: "FuzzyList_getitem similar [] full (datacubes dm) v =
             (case ?cd of [] \<Rightarrow> Inl NotFound | [x] \<Rightarrow> Inr x | _ \<Rightarrow> Inl Ambiguous)"
    using assms(3) by (rule FuzzyList_getitem_fuzzy_stage)
  have s: "FuzzyList_getitem similar [] full (spectra dm) v =
             (case ?cs of [] \<Rightarrow> Inl NotFound | [x] \<Rightarrow> Inr x | _ \<Rightarrow> Inl Ambiguous)"
    using assms(4) by (rule FuzzyList_getitem_fuzzy_stage)
  show ?thesis
    using assms(1,2) unfolding DRPDataModel_getitem_def DRPDataModel_eq_def d s Let_def
    by (auto split: list.splits)
qed

theorem C3_fuzzy_stage_witness:
  "''dis'' \<notin> set (map name (datacubes full_model)) \<and>
   ''dis'' \<notin> set (map name (spectra full_model)) \<and>
   List.find (\<lambda>x. lower (full x) = lower ''dis'') (datacubes full_model) = None \<and>
   List.find (\<lambda>x. lower (full x) = lower ''dis'') (spectra full_model) = None \<and>
   DRPDataModel_getitem prefix_similar full_model ''dis'' =
     Inr (A_Spectrum (adopted 7 dispmed_spectrum))"
proof -
  have 1: "''dis'' \<notin> set (map name (datacubes full_model))"
    by (simp add: example_defs)
  have 2: "''dis'' \<notin> set (map name (spectra full_model))"
    by (simp add: example_defs)
  have 3: "List.find (\<lambda>x. lower (full x) = lower ''dis'') (datacubes full_model) = None"
    by (simp add: example_defs full_def str_eval)
  have 4: "List.find (\<lambda>x. lower (full x) = lower ''dis'') (spectra full_model) = None"
    by (simp add: example_defs full_def str_eval)
  have "DRPDataModel_getitem prefix_similar full_model ''dis'' =
      Inr (A_Spectrum (adopted 7 dispmed_spectrum))"
    unfolding C3_fuzzy_stage [OF 1 2 3 4]
    by (simp add: example_defs FuzzyList_candidates_def full_def str_eval)
  with 1 2 3 4 show ?thesis by simp
qed

text \<open>
  C8, as stated, fails: the spectrum of \<open>example_model\<close> is an entry of the registry,
  and the lookup of its name returns the datacube of the same name.
\<close>

theorem C8_counterexample:
  "adopted 7 example_spectrum \<in> set (spectra example_model) \<and>
   DRPDataModel_getitem prefix_similar example_model (name (adopted 7 example_spectrum)) =
     Inr (A_DataCube (adopted 7 example_datacube)) \<and>
   DRPDataModel_getitem prefix_similar example_model (name (adopted 7 example_spectrum)) \<noteq>
     Inr (A_Spectrum (adopted 7 example_spectrum))"
  by (simp add: example_defs DRPDataModel_getitem_def DRPDataModel_eq_def)

text \<open>
  C8, amended: for every datacube that is the first of its name in the datacubes, and
  for every spectrum that is the first of its name in the spectra and whose name is not
  the name of a datacube, looking up the entry's own name via
  \<open>DRPDataModel.__getitem__\<close> returns that same entry. (When the names are unique
  across the registry this is every entry.)
\<close>

theorem C8_canonical_name_lookup:
  "(i < length (datacubes dm) \<and>
    (\<forall>j<i. name (datacubes dm ! j) \<noteq> name (datacubes dm ! i))
    \<longrightarrow> DRPDataModel_getitem similar dm (name (datacubes dm ! i)) =
          Inr (A_DataCube (datacubes dm ! i))) \<and>
   (k < length (spectra dm) \<and>
    (\<forall>j<k. name (spectra dm ! j) \<noteq> name (spectra dm ! k)) \<and>
    name (spectra dm ! k) \<notin> set (map name (datacubes dm))
    \<longrightarrow> DRPDataModel_getitem similar dm (name (spectra dm ! k)) =
          Inr (A_Spectrum (spectra dm ! k)))"
proof (intro conjI impI)
  assume a: "i < length (datacubes dm) \<and>
    (\<forall>j<i. name (datacubes dm ! j) \<noteq> name (datacubes dm ! i))"
  then have "name (datacubes dm ! i) \<in> set (map name (datacubes dm))"
    by simp
  moreover have "datacubes dm ! index (map name (datacubes dm)) (name (datacubes dm ! i)) =
      datacubes dm ! i"
    using a by (intro index_map_first) auto
  ultimately show "DRPDataModel_getitem similar dm (name (datacubes dm ! i)) =
          Inr (A_DataCube (datacubes dm ! i))"
    by (simp add: DRPDataModel_getitem_def DRPDataModel_eq_def)
next
  assume a: "k < length (spectra dm) \<and>
    (\<forall>j<k. name (spectra dm ! j) \<noteq> name (spectra dm ! k)) \<and>
    name (spectra dm ! k) \<notin> set (map name (datacubes dm))"
  then have "name (spectra dm ! k) \<in> set (map name (spectra dm))"
    by simp
  moreover have "spectra dm ! index (map name (spectra dm)) (name (spectra dm ! k)) =
      spectra dm ! k"
    using a by (intro index_map_first) auto
  ultimately show "DRPDataModel_getitem similar dm (name (spectra dm ! k)) =
          Inr (A_Spectrum (spectra dm ! k))"
    using a by (simp add: DRPDataModel_getitem_def DRPDataModel_eq_def)
qed

theorem C8_canonical_name_lookup_witness:
  "1 < length (datacubes full_model) \<and>
   name (datacubes full_model ! 0) \<noteq> name (datacubes full_model ! 1) \<and>
   DRPDataModel_getitem prefix_similar full_model (name (datacubes full_model ! 1)) =
     Inr (A_DataCube (datacubes full_model ! 1)) \<and>
   1 < length (spectra full_model) \<and>
   name (spectra full_model ! 0) \<noteq> name (spectra full_model ! 1) \<and>
   name (spectra full_model ! 1) \<notin> set (map name (datacubes full_model)) \<and>
   DRPDataModel_getitem prefix_similar full_model (name (spectra full_model ! 1)) =
     Inr (A_Spectrum (spectra full_model ! 1))"
proof -
  have d: "1 < length (datacubes full_model) \<and>
    (\<forall>j<1. name (datacubes full_model ! j) \<noteq> name (datacubes full_model ! 1))"
    by (simp add: example_defs)
  have s: "1 < length (spectra full_model) \<and>
    (\<forall>j<1. name (spectra full_model ! j) \<noteq> name (spectra full_model ! 1)) \<and>
    name (spectra full_model ! 1) \<notin> set (map name (datacubes full_model))"
    by (simp add: example_defs)
  from C8_canonical_name_lookup [of 1 full_model prefix_similar 1] d s
  have "DRPDataModel_getitem prefix_similar full_model (name (datacubes full_model ! 1)) =
          Inr (A_DataCube (datacubes full_model ! 1))"
    and "DRPDataModel_getitem prefix_similar full_model (name (spectra full_model ! 1)) =
          Inr (A_Spectrum (spectra full_model ! 1))"
    by blast+
  then show ?thesis using d s by simp
qed

section \<open>The loaders of a Map\<close>

subsection \<open>The DB loader: sorting by \<open>spaxel_index\<close>\<close>

lemma getattrs_char:
  "getattrs ss col =
     (if \<forall>s\<in>set ss. columns s col \<noteq> None
      then Inr (map (\<lambda>s. the (columns s col)) ss)
      else Inl (AttributeError col))"
  by (induction ss) (auto split: option.splits)

text \<open>
  Indexing a column of the rows by an argsort of their keys gives the column of the
  rows in an ascending order of the keys.
\<close>

lemma is_argsort_set:
  assumes "is_argsort ks order"
  shows "set order = {0..<length ks}"
proof -
  from assms have "mset order = mset [0..<length ks]"
    by (simp add: is_argsort_def)
  then have "set order = set [0..<length ks]"
    by (rule mset_eq_setD)
  then show ?thesis by simp
qed

lemma take_order_is_argsort:
  assumes "is_argsort (map f rows) order"
  shows "take_order (map g rows) order = Inr (map g (map (\<lambda>i. rows ! i) order))"
    and "mset (map (\<lambda>i. rows ! i) order) = mset rows"
    and "sorted (map f (map (\<lambda>i. rows ! i) order))"
proof -
  have in_range: "\<forall>i\<in>set order. i < length rows"
    using is_argsort_set [OF assms] by simp
  then have "list_all (\<lambda>i. i < length (map g rows)) order"
    by (simp add: list_all_iff)
  moreover have "map (\<lambda>i. map g rows ! i) order = map g (map (\<lambda>i. rows ! i) order)"
    using in_range by simp
  ultimately show "take_order (map g rows) order = Inr (map g (map (\<lambda>i. rows ! i) order))"
    by (simp add: take_order_def)
  have "mset (map (\<lambda>i. rows ! i) order) = image_mset (\<lambda>i. rows ! i) (mset order)"
    by simp
  also have "\<dots> = image_mset (\<lambda>i. rows ! i) (mset [0..<length rows])"
    using assms by (simp add: is_argsort_def)
  also have "\<dots> = mset (map (\<lambda>i. rows ! i) [0..<length rows])"
    by simp
  also have "\<dots> = mset rows"
    by (simp add: map_nth)
  finally show "mset (map (\<lambda>i. rows ! i) order) = mset rows" .
  have eq: "map f (map (\<lambda>i. rows ! i) order) = map (\<lambda>i. map f rows ! i) order"
    using in_range by simp
  have "sorted (map (\<lambda>i. map f rows ! i) order)"
    using assms by (simp add: is_argsort_def)
  then show "sorted (map f (map (\<lambda>i. rows ! i) order))"
    by (simp only: eq)
qed

text \<open>Where the keys are distinct there is one ascending order of the rows.\<close>

lemma sorted_perm_unique:
  assumes "mset rs = mset rows" and "sorted (map f rs)" and "distinct (map f rows)"
  shows "rs = sort_key f rows"
proof -
  have "inj_on f (set rows)"
    using assms(3) by (simp add: distinct_map)
  with assms(1,2) have "sort_key f rows = rs"
    by (intro sort_key_inj_key_eq) simp_all
  then show ?thesis by simp
qed

lemma db_array_sorted:
  assumes "is_argsort (map spaxel_index rows) order"
  shows "db_array E self rows order ext =
     (case getattrs (map (\<lambda>i. rows ! i) order)
             (fullname E (maps_property self) (channel self) ext) of
        Inl e \<Rightarrow> Inl e
      | Inr vals \<Rightarrow> reshape (shape self) vals)"
proof -
  let ?col = "fullname E (maps_property self) (channel self) ext"
  let ?rs = "map (\<lambda>i. rows ! i) order"
  have s: "set ?rs = set rows"
    using take_order_is_argsort(2) [OF assms] by (rule mset_eq_setD)
  show ?thesis
  proof (cases "\<forall>s\<in>set rows. columns s ?col \<noteq> None")
    case True
    then have 1: "getattrs rows ?col = Inr (map (\<lambda>s. the (columns s ?col)) rows)"
      by (simp add: getattrs_char)
    from True s have 2: "getattrs ?rs ?col = Inr (map (\<lambda>s. the (columns s ?col)) ?rs)"
      by (simp only: getattrs_char) simp
    show ?thesis
      unfolding db_array_def 1 2
      by (simp add: take_order_is_argsort(1) [OF assms])
  next
    case False
    then have 1: "getattrs rows ?col = Inl (AttributeError ?col)"
      by (simp add: getattrs_char)
    from False s have 2: "getattrs ?rs ?col = Inl (AttributeError ?col)"
      by (simp only: getattrs_char) simp
    show ?thesis
      unfolding db_array_def 1 2 by simp
  qed
qed

lemma db_array_raster:
  assumes "is_argsort (map spaxel_index rows) order"
    and "distinct (map spaxel_index rows)"
  shows "db_array E self rows order ext =
     spec_raster_array rows (fullname E (maps_property self) (channel self) ext) (shape self)"
proof -
  have "map (\<lambda>i. rows ! i) order = sort_key spaxel_index rows"
    using take_order_is_argsort(2,3) [OF assms(1)] assms(2)
    by (rule sorted_perm_unique)
  then show ?thesis
    by (simp add: db_array_sorted [OF assms(1)] spec_raster_array_def)
qed

lemma spec_raster_array_perm:
  assumes "mset rows' = mset rows" and "distinct (map spaxel_index rows)"
  shows "spec_raster_array rows' col sh = spec_raster_array rows col sh"
proof -
  have "inj_on spaxel_index (set rows')"
    using assms by (metis distinct_map mset_eq_setD)
  then have "sort_key spaxel_index rows' = sort_key spaxel_index rows"
    using assms(1) by (rule sort_key_eq_sort_key[rotated])
  then show ?thesis by (simp add: spec_raster_array_def)
qed

lemma stable_argsort_is_argsort: "is_argsort ks (stable_argsort ks)"
  by (simp add: is_argsort_def stable_argsort_def sorted_sort_key)

lemma when_flag_Inr:
  "when_flag b r = Inr x \<longleftrightarrow> (if b then \<exists>a. r = Inr a \<and> x = Some a else x = None)"
  by (cases r) (auto simp: when_flag_def)

lemma when_flag_Inl:
  "when_flag b r = Inl e \<longleftrightarrow> b \<and> r = Inl e"
  by (cases r) (auto simp: when_flag_def)

text \<open>The rows the DB loader reads, and the header it finds.\<close>

lemma load_map_from_db_Inr:
  assumes "load_map_from_db E self = Inr (m, w)"
  shows "\<exists>db ver v iv mk.
           data (maps self) = DBFile db \<and>
           StrictVersion E (dapver (maps self)) = Some ver \<and>
           db_array E self
             (if version_le ver (1, 1, 1) then spaxelprops db else spaxelprops5 db)
             (argsort E (map spaxel_index
                (if version_le ver (1, 1, 1) then spaxelprops db else spaxelprops5 db)))
             None = Inr v \<and>
           when_flag (p_ivar (maps_property self))
             (db_array E self
               (if version_le ver (1, 1, 1) then spaxelprops db else spaxelprops5 db)
               (argsort E (map spaxel_index
                  (if version_le ver (1, 1, 1) then spaxelprops db else spaxelprops5 db)))
               (Some ''ivar'')) = Inr iv \<and>
           when_flag (p_mask (maps_property self))
             (db_array E self
               (if version_le ver (1, 1, 1) then spaxelprops db else spaxelprops5 db)
               (argsort E (map spaxel_index
                  (if version_le ver (1, 1, 1) then spaxelprops db else spaxelprops5 db)))
               (Some ''mask'')) = Inr mk \<and>
           (if db_header_dict self (hdus db) = None \<or> db_header_dict self (hdus db) = Some []
            then m = self\<lparr>map_value := Some v, map_ivar := iv, map_mask := mk\<rparr> \<and>
                 w = [MarvinUserWarning (''cannot find the header for property '' @
                        p_name (maps_property self) @ ''.'')]
            else m = self\<lparr>map_value := Some v, map_ivar := iv, map_mask := mk,
                           map_header := db_header_dict self (hdus db)\<rparr> \<and> w = [])"
proof -
  from assms obtain ver where ver: "StrictVersion E (dapver (maps self)) = Some ver"
    by (auto simp: load_map_from_db_def split: option.splits)
  from assms ver obtain db where db: "data (maps self) = DBFile db"
    by (auto simp: load_map_from_db_def split: maps_data.splits)
  show ?thesis
    using assms unfolding load_map_from_db_def ver db
    by (auto simp: Let_def split: sum.splits if_splits)
qed

lemmas map_example_defs = array2_def array3_def example_property_def swapped_property_def
  registry_of_def example_fullname_def example_env_def example_hdulist_def example_row_def
  example_rows_def example_db_def matching_hdus_def other_hdus_def example_payload_def
  example_maps_def request_ok_def request_error_def request_fails_def stable_argsort_def
  tie_property_def tie_row_def tie_maps_def env_with_order_def

lemmas map_eval = Map_init_def load_map_from_db_def load_map_from_file_def
  load_map_from_api_def getmap_request_def db_array_def take_order_def
  reshape_def when_flag_def db_header_dict_def version_le_def lower_channel_def
  channel_not_in_def channel_idx_of_def file_array_def file_unit_def str_of_def
  invalid_combination_def spec_raster_array_def example_self_def

text \<open>
  C2, as stated, fails: the array depends on the order in which the DB returns rows of
  equal \<open>spaxel_index\<close>. The two rows of index 0, returned in one order and in the other,
  give two different value arrays, whichever of the two possible orders
  \<open>numpy.argsort\<close> answers for the keys \<open>[0, 0]\<close>.
\<close>

theorem C2_counterexample:
  "mset [tie_row 5, tie_row 6] = mset [tie_row 6, tie_row 5] \<and>
   is_argsort [0, 0] [0, 1] \<and> is_argsort [0, 0] [1, 0] \<and>
   map_option map_value (constructed (Map_init (env_with_order request_ok [0, 1])
     (tie_maps [tie_row 5, tie_row 6]) ''stellar_vel'' None)) =
     Some (Some (array2 [[5, 6]])) \<and>
   map_option map_value (constructed (Map_init (env_with_order request_ok [0, 1])
     (tie_maps [tie_row 6, tie_row 5]) ''stellar_vel'' None)) =
     Some (Some (array2 [[6, 5]])) \<and>
   map_option map_value (constructed (Map_init (env_with_order request_ok [1, 0])
     (tie_maps [tie_row 5, tie_row 6]) ''stellar_vel'' None)) =
     Some (Some (array2 [[6, 5]])) \<and>
   map_option map_value (constructed (Map_init (env_with_order request_ok [1, 0])
     (tie_maps [tie_row 6, tie_row 5]) ''stellar_vel'' None)) =
     Some (Some (array2 [[5, 6]])) \<and>
   array2 [[5, 6]] \<noteq> (array2 [[6, 5]] :: int ndarray)"
  by (simp add: map_eval map_example_defs is_argsort_def constructed_def Let_def upt_rec
      str_eval)

text \<open>
  C2, amended: after \<open>Map._load_map_from_db\<close> completes on rows whose
  \<open>spaxel_index\<close> values are pairwise distinct, the value array, and the ivar and mask
  arrays when the property has them, are the per-spaxel values of their columns, the
  rows taken in ascending order of \<open>spaxel_index\<close>, reshaped to the spatial shape
  (\<open>spec_raster_array\<close>), and that array is the same for every order in which the DB
  returns the rows. (\<open>numpy.argsort\<close> is any function that returns an argsort.)
\<close>

theorem C2_db_arrays_in_raster_order:
  assumes "load_map_from_db E self = Inr (m, w)"
    and "data (maps self) = DBFile db"
    and "StrictVersion E (dapver (maps self)) = Some ver"
    and "rows = (if version_le ver (1, 1, 1) then spaxelprops db else spaxelprops5 db)"
    and "is_argsort (map spaxel_index rows) (argsort E (map spaxel_index rows))"
    and "distinct (map spaxel_index rows)"
  shows "(\<exists>v. spec_raster_array rows (fullname E (maps_property self) (channel self) None)
                (shape self) = Inr v \<and> map_value m = Some v) \<and>
         (p_ivar (maps_property self) \<longrightarrow>
            (\<exists>v. spec_raster_array rows
                    (fullname E (maps_property self) (channel self) (Some ''ivar''))
                    (shape self) = Inr v \<and> map_ivar m = Some v)) \<and>
         (p_mask (maps_property self) \<longrightarrow>
            (\<exists>v. spec_raster_array rows
                    (fullname E (maps_property self) (channel self) (Some ''mask''))
                    (shape self) = Inr v \<and> map_mask m = Some v)) \<and>
         (\<forall>rows' col. mset rows' = mset rows \<longrightarrow>
            spec_raster_array rows' col (shape self) =
            spec_raster_array rows col (shape self))"
proof -
  from load_map_from_db_Inr [OF assms(1)] obtain db' ver' v iv mk where
    db: "data (maps self) = DBFile db'" and
    ver: "StrictVersion E (dapver (maps self)) = Some ver'" and
    v: "db_array E self
          (if version_le ver' (1, 1, 1) then spaxelprops db' else spaxelprops5 db')
          (argsort E (map spaxel_index
             (if version_le ver' (1, 1, 1) then spaxelprops db' else spaxelprops5 db')))
          None = Inr v" and
    iv: "when_flag (p_ivar (maps_property self))
          (db_array E self
            (if version_le ver' (1, 1, 1) then spaxelprops db' else spaxelprops5 db')
            (argsort E (map spaxel_index
               (if version_le ver' (1, 1, 1) then spaxelprops db' else spaxelprops5 db')))
            (Some ''ivar'')) = Inr iv" and
    mk: "when_flag (p_mask (maps_property self))
          (db_array E self
            (if version_le ver' (1, 1, 1) then spaxelprops db' else spaxelprops5 db')
            (argsort E (map spaxel_index
               (if version_le ver' (1, 1, 1) then spaxelprops db' else spaxelprops5 db')))
            (Some ''mask'')) = Inr mk" and
    m: "if db_header_dict self (hdus db') = None \<or> db_header_dict self (hdus db') = Some []
        then m = self\<lparr>map_value := Some v, map_ivar := iv, map_mask := mk\<rparr> \<and>
             w = [MarvinUserWarning (''cannot find the header for property '' @
                    p_name (maps_property self) @ ''.'')]
        else m = self\<lparr>map_value := Some v, map_ivar := iv, map_mask := mk,
                       map_header := db_header_dict self (hdus db')\<rparr> \<and> w = []"
    by blast
  have same: "db' = db" "ver' = ver"
    using db ver assms(2,3) by simp_all
  have rows: "(if version_le ver' (1, 1, 1) then spaxelprops db' else spaxelprops5 db') = rows"
    unfolding same assms(4) by (rule refl)
  note raster = db_array_raster [OF assms(5,6), of E self]
  have fields: "map_value m = Some v" "map_ivar m = iv" "map_mask m = mk"
    using m by (auto split: if_splits)
  have 1: "\<exists>x. spec_raster_array rows (fullname E (maps_property self) (channel self) None)
                 (shape self) = Inr x \<and> map_value m = Some x"
    using v fields(1) unfolding rows raster by simp
  have 2: "p_ivar (maps_property self) \<longrightarrow>
        (\<exists>x. spec_raster_array rows
                (fullname E (maps_property self) (channel self) (Some ''ivar''))
                (shape self) = Inr x \<and> map_ivar m = Some x)"
    using iv fields(2) unfolding rows raster by (auto simp: when_flag_Inr)
  have 3: "p_mask (maps_property self) \<longrightarrow>
        (\<exists>x. spec_raster_array rows
                (fullname E (maps_property self) (channel self) (Some ''mask''))
                (shape self) = Inr x \<and> map_mask m = Some x)"
    using mk fields(3) unfolding rows raster by (auto simp: when_flag_Inr)
  have 4: "\<forall>rows' col. mset rows' = mset rows \<longrightarrow>
        spec_raster_array rows' col (shape self) = spec_raster_array rows col (shape self)"
    using spec_raster_array_perm [OF _ assms(6)] by blast
  from 1 2 3 4 show ?thesis by blast
qed

theorem C2_db_arrays_in_raster_order_witness:
  "distinct (map spaxel_index example_rows) \<and>
   is_argsort (map spaxel_index example_rows)
     (argsort (example_env request_ok) (map spaxel_index example_rows)) \<and>
   map_option map_value (constructed (load_map_from_db (example_env request_ok)
     (example_self (example_maps ''db'' (DBFile (example_db matching_hdus))
        example_property) example_property))) = Some (Some (array2 [[5, 6], [7, 8]])) \<and>
   spec_raster_array example_rows ''emline_gflux_ha_6564'' (2, 2) =
     Inr (array2 [[5, 6], [7, 8]]) \<and>
   spec_raster_array (rev example_rows) ''emline_gflux_ha_6564'' (2, 2) =
     Inr (array2 [[5, 6], [7, 8]])"
proof -
  let ?E = "example_env request_ok"
  let ?self = "example_self (example_maps ''db'' (DBFile (example_db matching_hdus))
                 example_property) example_property"
  obtain m where m: "load_map_from_db ?E ?self = Inr (m, [])"
    by (simp add: map_eval map_example_defs Let_def upt_rec str_eval)
  have db: "data (maps ?self) = DBFile (example_db matching_hdus)"
    by (simp add: example_self_def example_maps_def)
  have ver: "StrictVersion ?E (dapver (maps ?self)) = Some (2, 0, 2)"
    by (simp add: example_self_def example_maps_def example_env_def)
  have rows: "example_rows =
      (if version_le (2, 0, 2) (1, 1, 1) then spaxelprops (example_db matching_hdus)
       else spaxelprops5 (example_db matching_hdus))"
    by (simp add: version_le_def example_db_def)
  have srt: "is_argsort (map spaxel_index example_rows)
      (argsort ?E (map spaxel_index example_rows))"
    by (simp add: example_env_def stable_argsort_is_argsort)
  have dist: "distinct (map spaxel_index example_rows)"
    by (simp add: example_rows_def example_row_def)
  note inst = C2_db_arrays_in_raster_order [OF m db ver rows srt dist]
  from inst obtain v where
    v: "spec_raster_array example_rows
          (fullname ?E (maps_property ?self) (channel ?self) None) (shape ?self) = Inr v"
       "map_value m = Some v"
    by blast
  from inst have perm: "\<forall>rows' col. mset rows' = mset example_rows \<longrightarrow>
      spec_raster_array rows' col (shape ?self) =
      spec_raster_array example_rows col (shape ?self)"
    by blast
  have col: "fullname ?E (maps_property ?self) (channel ?self) None = ''emline_gflux_ha_6564''"
    by (simp add: example_self_def example_env_def example_fullname_def example_property_def)
  have sh: "shape ?self = (2, 2)"
    by (simp add: example_self_def example_maps_def)
  have e: "spec_raster_array example_rows ''emline_gflux_ha_6564'' (2, 2) =
      Inr (array2 [[5, 6], [7, 8]])"
    by (simp add: map_eval map_example_defs upt_rec)
  have "mset (rev example_rows) = mset example_rows"
    by simp
  then have r: "spec_raster_array (rev example_rows) ''emline_gflux_ha_6564'' (2, 2) =
      spec_raster_array example_rows ''emline_gflux_ha_6564'' (2, 2)"
    using perm unfolding sh by blast
  have "map_value m = Some (array2 [[5, 6], [7, 8]])"
    using v e unfolding col sh by simp
  then have "map_option map_value (constructed (load_map_from_db ?E ?self)) =
      Some (Some (array2 [[5, 6], [7, 8]]))"
    unfolding m by (simp add: constructed_def)
  with dist srt e r show ?thesis by simp
qed

text \<open>The arrays of the DB loader do not depend on the header rows.\<close>

lemma load_map_from_db_hdus:
  assumes "data (maps self) = DBFile db"
  shows "load_map_from_db E (self\<lparr>maps := (maps self)\<lparr>data := DBFile (db\<lparr>hdus := hs\<rparr>)\<rparr>\<rparr>) =
     (case load_map_from_db E self of
        Inl e \<Rightarrow> Inl e
      | Inr (m, w) \<Rightarrow>
          (let m' = m\<lparr>maps := (maps self)\<lparr>data := DBFile (db\<lparr>hdus := hs\<rparr>)\<rparr>,
                      map_header := map_header self\<rparr>
           in if db_header_dict self hs = None \<or> db_header_dict self hs = Some []
              then Inr (m', [MarvinUserWarning (''cannot find the header for property '' @
                               p_name (maps_property self) @ ''.'')])
              else Inr (m'\<lparr>map_header := db_header_dict self hs\<rparr>, [])))"
proof (cases "StrictVersion E (dapver (maps self))")
  case None
  then show ?thesis by (simp add: load_map_from_db_def)
next
  case (Some ver)
  let ?self' = "self\<lparr>maps := (maps self)\<lparr>data := DBFile (db\<lparr>hdus := hs\<rparr>)\<rparr>\<rparr>"
  have a: "db_array E ?self' rows ord ext = db_array E self rows ord ext" for rows ord ext
    by (simp add: db_array_def split: sum.splits)
  have h: "db_header_dict ?self' hs = db_header_dict self hs"
    by (simp add: db_header_dict_def)
  show ?thesis
  proof (cases "version_le ver (1, 1, 1)")
    case True
    then show ?thesis
      using Some assms
      by (auto simp: load_map_from_db_def a h Let_def split: sum.splits)
  next
    case False
    then show ?thesis
      using Some assms
      by (auto simp: load_map_from_db_def a h Let_def split: sum.splits)
  qed
qed

lemma load_map_from_db_no_header:
  assumes "data (maps self) = DBFile db"
    and "\<forall>h\<in>set (hdus db). upper (p_name (maps_property self)) \<noteq> upper (extname_name h)"
    and "load_map_from_db E self = Inr (m, w)"
  shows "map_header m = map_header self \<and>
         w = [MarvinUserWarning (''cannot find the header for property '' @
                p_name (maps_property self) @ ''.'')]"
proof -
  have "List.find (\<lambda>h. upper (p_name (maps_property self)) = upper (extname_name h)) (hdus db)
          = None"
    using assms(2) by (simp add: find_None_iff)
  then have "db_header_dict self (hdus db) = None"
    by (simp add: db_header_dict_def)
  then show ?thesis
    using load_map_from_db_Inr [OF assms(3)] assms(1) by auto
qed

text \<open>
  C7: for every Map constructed from the DB origin, if no header row of the entity's
  HDUs has the extension name of the property (compared in upper case), then a
  construction that succeeds leaves the header unset and emits exactly the one
  warning, and a construction that fails fails with the same error whatever the header
  rows are: no error is raised for the missing header.
\<close>

theorem C7_missing_db_header_is_warning:
  assumes "data_origin mps = ''db''" and "data mps = DBFile db"
    and "properties mps (lower pname) = Some mp"
    and "\<forall>h\<in>set (hdus db). upper (p_name mp) \<noteq> upper (extname_name h)"
  shows "case Map_init E mps pname ch of
           Inr (m, w) \<Rightarrow>
             map_header m = None \<and>
             w = [MarvinUserWarning
                    (''cannot find the header for property '' @ p_name mp @ ''.'')]
         | Inl e \<Rightarrow>
             (\<forall>hs. Map_init E (mps\<lparr>data := DBFile (db\<lparr>hdus := hs\<rparr>)\<rparr>) pname ch = Inl e)"
proof (cases "case p_channels mp of None \<Rightarrow> False
              | Some chs \<Rightarrow> channel_not_in (lower_channel ch) chs")
  case True
  then show ?thesis
    using assms(3) by (simp add: Map_init_def)
next
  case False
  let ?self = "\<lparr>maps = mps, property_name = lower pname, channel = lower_channel ch,
                shape = maps_shape mps, maps_property = mp,
                map_value = None, map_ivar = None, map_mask = None,
                map_header = None, map_unit = None\<rparr>"
  have init: "Map_init E mps pname ch = load_map_from_db E ?self"
    using False assms(1,3) by (simp add: Map_init_def)
  have init': "Map_init E (mps\<lparr>data := DBFile (db\<lparr>hdus := hs\<rparr>)\<rparr>) pname ch =
      load_map_from_db E (?self\<lparr>maps := (maps ?self)\<lparr>data := DBFile (db\<lparr>hdus := hs\<rparr>)\<rparr>\<rparr>)"
    for hs
    using False assms(1,3) by (simp add: Map_init_def)
  have d: "data (maps ?self) = DBFile db"
    using assms(2) by simp
  show ?thesis
  proof (cases "load_map_from_db E ?self")
    case (Inl e)
    then show ?thesis
      unfolding init init' load_map_from_db_hdus [OF d] by simp
  next
    case (Inr r)
    obtain m w where r: "r = (m, w)" by (cases r)
    have "\<forall>h\<in>set (hdus db). upper (p_name (maps_property ?self)) \<noteq> upper (extname_name h)"
      using assms(4) by simp
    from load_map_from_db_no_header [OF d this Inr [unfolded r]]
    show ?thesis unfolding init Inr r by simp
  qed
qed

theorem C7_missing_db_header_is_warning_witness:
  "data_origin (example_maps ''db'' (DBFile (example_db other_hdus)) example_property) = ''db'' \<and>
   properties (example_maps ''db'' (DBFile (example_db other_hdus)) example_property)
     (lower ''EMLINE_GFLUX'') = Some example_property \<and>
   upper (p_name example_property) \<notin> set (map (\<lambda>h. upper (extname_name h)) other_hdus) \<and>
   (\<exists>m. Map_init (example_env request_ok)
          (example_maps ''db'' (DBFile (example_db other_hdus)) example_property)
          ''EMLINE_GFLUX'' (Some ''Ha_6564'') =
        Inr (m, [MarvinUserWarning ''cannot find the header for property emline_gflux.'']) \<and>
        map_header m = None \<and> map_value m = Some (array2 [[5, 6], [7, 8]]))"
proof -
  let ?mps = "example_maps ''db'' (DBFile (example_db other_hdus)) example_property"
  have 1: "data_origin ?mps = ''db''"
    by (simp add: example_maps_def)
  have 2: "data ?mps = DBFile (example_db other_hdus)"
    by (simp add: example_maps_def)
  have 3: "properties ?mps (lower ''EMLINE_GFLUX'') = Some example_property"
    by (simp add: example_maps_def registry_of_def example_property_def str_eval)
  have 4: "\<forall>h\<in>set (hdus (example_db other_hdus)).
      upper (p_name example_property) \<noteq> upper (extname_name h)"
    by (simp add: example_db_def other_hdus_def example_property_def str_eval)
  obtain m w where m: "Map_init (example_env request_ok) ?mps ''EMLINE_GFLUX''
      (Some ''Ha_6564'') = Inr (m, w)" and v: "map_value m = Some (array2 [[5, 6], [7, 8]])"
    by (simp add: map_eval map_example_defs Let_def upt_rec str_eval)
  from C7_missing_db_header_is_warning [OF 1 2 3 4, of "example_env request_ok" "Some ''Ha_6564''"]
  have "map_header m = None \<and>
      w = [MarvinUserWarning (''cannot find the header for property '' @
             p_name example_property @ ''.'')]"
    unfolding m by simp
  then have "map_header m = None"
    and "w = [MarvinUserWarning ''cannot find the header for property emline_gflux.'']"
    by (simp_all add: example_property_def)
  moreover have "upper (p_name example_property) \<notin>
      set (map (\<lambda>h. upper (extname_name h)) other_hdus)"
    using 4 by (simp add: example_db_def other_hdus_def)
  ultimately show ?thesis using 1 3 m v by auto
qed

subsection \<open>The errors of the loaders\<close>

lemma channel_idx_of_not_MarvinError: "channel_idx_of self \<noteq> Inl (MarvinError s)"
  by (auto simp: channel_idx_of_def split: option.splits)

lemma file_array_not_MarvinError: "file_array hl ext idx \<noteq> Inl (MarvinError s)"
proof (cases "hl ext")
  case None
  then show ?thesis by (simp add: file_array_def)
next
  case (Some h)
  show ?thesis
  proof (cases idx)
    case None
    then show ?thesis using Some by (simp add: file_array_def)
  next
    case (Some i)
    then show ?thesis using \<open>hl ext = Some h\<close>
      by (cases "hdu_data h") (auto simp: file_array_def)
  qed
qed

lemma file_unit_not_MarvinError: "file_unit u idx \<noteq> Inl (MarvinError s)"
  by (auto simp: file_unit_def split: unit_attr.splits option.splits)

text \<open>What a successful load from the file has read.\<close>

lemma load_map_from_file_Inr:
  assumes "load_map_from_file self = Inr m"
  shows "\<exists>hl h idx v iv mk u.
           data (maps self) = HDUList hl \<and> hl (property_name self) = Some h \<and>
           channel_idx_of self = Inr idx \<and>
           file_array hl (property_name self) idx = Inr v \<and>
           when_flag (p_ivar (maps_property self))
             (file_array hl (property_name self @ ''_ivar'') idx) = Inr iv \<and>
           when_flag (p_mask (maps_property self))
             (file_array hl (property_name self @ ''_mask'') idx) = Inr mk \<and>
           file_unit (p_unit (maps_property self)) idx = Inr u \<and>
           m = self\<lparr>map_header := Some (hdu_header h), map_value := Some v,
                     map_ivar := iv, map_mask := mk, map_unit := u\<rparr>"
proof -
  from assms obtain hl where hl: "data (maps self) = HDUList hl"
    by (auto simp: load_map_from_file_def split: maps_data.splits)
  from assms hl obtain h where h: "hl (property_name self) = Some h"
    by (auto simp: load_map_from_file_def split: option.splits)
  show ?thesis
    using assms hl h
    by (auto simp: load_map_from_file_def split: sum.splits)
qed

lemma load_map_from_file_not_MarvinError:
  "load_map_from_file self \<noteq> Inl (MarvinError s)"
proof
  assume a: "load_map_from_file self = Inl (MarvinError s)"
  then obtain hl where hl: "data (maps self) = HDUList hl"
    by (auto simp: load_map_from_file_def split: maps_data.splits)
  from a hl obtain h where h: "hl (property_name self) = Some h"
    by (auto simp: load_map_from_file_def split: option.splits)
  show False
    using a channel_idx_of_not_MarvinError [of self s]
      file_array_not_MarvinError [of hl _ _ s]
      file_unit_not_MarvinError [of "p_unit (maps_property self)" _ s] hl h
    by (auto simp: load_map_from_file_def when_flag_Inl split: sum.splits)
qed

lemma db_array_not_MarvinError: "db_array E self rows ord ext \<noteq> Inl (MarvinError s)"
  by (auto simp: db_array_def take_order_def getattrs_char reshape_def
      split: sum.splits prod.splits if_splits)

lemma if_Inr_not_Inl: "(if c then Inr a else Inr b) \<noteq> Inl e"
  by simp

lemma load_map_from_db_not_MarvinError:
  "load_map_from_db E self \<noteq> Inl (MarvinError s)"
proof
  assume a: "load_map_from_db E self = Inl (MarvinError s)"
  then obtain ver where ver: "StrictVersion E (dapver (maps self)) = Some ver"
    by (auto simp: load_map_from_db_def split: option.splits)
  from a ver obtain db where db: "data (maps self) = DBFile db"
    by (auto simp: load_map_from_db_def split: maps_data.splits)
  show False
    using a db_array_not_MarvinError [of E self _ _ _ s] ver db
    by (auto simp: load_map_from_db_def when_flag_Inl Let_def if_Inr_not_Inl
        split: sum.splits)
qed

text \<open>What a successful load from the API has received.\<close>

lemma load_map_from_api_Inr:
  assumes "load_map_from_api E self = Inr m"
  shows "\<exists>r d v iv mk u hdr.
           getmap_request E self = Inr r \<and> getData r = Some d \<and>
           d_value d = Some v \<and> d_ivar d = Some iv \<and> d_mask d = Some mk \<and>
           d_unit d = Some u \<and> d_header d = Some hdr \<and>
           m = self\<lparr>map_value := Some v, map_ivar := Some iv, map_mask := Some mk,
                     map_unit := Some u, map_header := Some hdr\<rparr>"
proof -
  from assms obtain r where r: "getmap_request E self = Inr r"
    by (auto simp: load_map_from_api_def split: sum.splits)
  from assms r obtain d where d: "getData r = Some d"
    by (auto simp: load_map_from_api_def split: option.splits)
  show ?thesis
    using assms r d
    by (auto simp: load_map_from_api_def split: option.splits)
qed

lemma load_map_from_api_MarvinError:
  assumes "load_map_from_api E self = Inl (MarvinError s)"
  shows "(\<exists>msg. s = ''found a problem when getting the map: '' @ msg) \<or>
         (\<exists>err. s = ''something went wrong. Error is: '' @ err)"
proof (cases "getmap_request E self")
  case (Inl msg)
  then show ?thesis using assms by (auto simp: load_map_from_api_def)
next
  case (Inr r)
  show ?thesis
  proof (cases "getData r")
    case None
    then show ?thesis
      using assms Inr by (auto simp: load_map_from_api_def split: option.splits)
  next
    case (Some d)
    then show ?thesis
      using assms Inr by (auto simp: load_map_from_api_def split: option.splits)
  qed
qed

lemma load_map_from_api_not_invalid_combination:
  "load_map_from_api E self \<noteq> Inl invalid_combination"
proof
  assume "load_map_from_api E self = Inl invalid_combination"
  from load_map_from_api_MarvinError [OF this [unfolded invalid_combination_def]]
  show False by auto
qed

subsection \<open>The attributes the loaders leave as they are\<close>

lemma load_map_from_file_name:
  assumes "load_map_from_file self = Inr m"
  shows "property_name m = property_name self \<and> channel m = channel self"
proof -
  from load_map_from_file_Inr [OF assms] obtain hl h v iv mk u where
    "data (maps self) = HDUList hl" and "hl (property_name self) = Some h" and
    "m = self\<lparr>map_header := Some (hdu_header h), map_value := Some v,
               map_ivar := iv, map_mask := mk, map_unit := u\<rparr>"
    by blast
  then show ?thesis by simp
qed

lemma load_map_from_db_name:
  assumes "load_map_from_db E self = Inr (m, w)"
  shows "property_name m = property_name self \<and> channel m = channel self"
proof -
  from load_map_from_db_Inr [OF assms] obtain db v iv mk where
    "data (maps self) = DBFile db" and
    m: "if db_header_dict self (hdus db) = None \<or> db_header_dict self (hdus db) = Some []
        then m = self\<lparr>map_value := Some v, map_ivar := iv, map_mask := mk\<rparr> \<and>
             w = [MarvinUserWarning (''cannot find the header for property '' @
                    p_name (maps_property self) @ ''.'')]
        else m = self\<lparr>map_value := Some v, map_ivar := iv, map_mask := mk,
                       map_header := db_header_dict self (hdus db)\<rparr> \<and> w = []"
    by blast
  show ?thesis
  proof (cases "db_header_dict self (hdus db) = None \<or>
                db_header_dict self (hdus db) = Some []")
    case True
    with m have "m = self\<lparr>map_value := Some v, map_ivar := iv, map_mask := mk\<rparr>"
      by simp
    then show ?thesis by simp
  next
    case False
    with m have "m = self\<lparr>map_value := Some v, map_ivar := iv, map_mask := mk,
                       map_header := db_header_dict self (hdus db)\<rparr>"
      by simp
    then show ?thesis by simp
  qed
qed

lemma load_map_from_api_name:
  assumes "load_map_from_api E self = Inr m"
  shows "property_name m = property_name self \<and> channel m = channel self"
proof -
  from load_map_from_api_Inr [OF assms] obtain v iv mk u hdr where
    "m = self\<lparr>map_value := Some v, map_ivar := Some iv, map_mask := Some mk,
               map_unit := Some u, map_header := Some hdr\<rparr>"
    by blast
  then show ?thesis by simp
qed

subsection \<open>The constructor\<close>

text \<open>The constructor, once the property and the channel have passed the check.\<close>

lemma Map_init_valid:
  assumes "properties mps (lower pname) = Some mp"
    and "\<not> (case p_channels mp of None \<Rightarrow> False
            | Some chs \<Rightarrow> channel_not_in (lower_channel ch) chs)"
  shows "Map_init E mps pname ch =
     (let self = \<lparr>maps = mps, property_name = lower pname, channel = lower_channel ch,
                  shape = maps_shape mps, maps_property = mp,
                  map_value = None, map_ivar = None, map_mask = None,
                  map_header = None, map_unit = None\<rparr>
      in if data_origin mps = ''file'' then
           (case load_map_from_file self of Inl e \<Rightarrow> Inl e | Inr m \<Rightarrow> Inr (m, []))
         else if data_origin mps = ''db'' then load_map_from_db E self
         else if data_origin mps = ''api'' then
           (case load_map_from_api E self of Inl e \<Rightarrow> Inl e | Inr m \<Rightarrow> Inr (m, []))
         else Inr (self, []))"
  using assms unfolding Map_init_def Let_def
  by (simp only: option.case if_False)

text \<open>
  C5: constructing a Map fails with the error "invalid combination of property name
  and channel." if and only if the lower-cased property name has no entry in the
  registry of the parent Maps, or the entry has a channel list and the channel, as the
  constructor normalises it (lower-cased; \<open>None\<close> or empty gives \<open>None\<close>), is not in it.
\<close>

theorem C5_invalid_combination_iff:
  "Map_init E mps pname ch = Inl invalid_combination \<longleftrightarrow>
     (properties mps (lower pname) = None \<or>
      (\<exists>mp chs. properties mps (lower pname) = Some mp \<and> p_channels mp = Some chs \<and>
         channel_not_in (lower_channel ch) chs))"
proof (cases "properties mps (lower pname)")
  case None
  then show ?thesis by (simp add: Map_init_def)
next
  case (Some mp)
  show ?thesis
  proof (cases "case p_channels mp of None \<Rightarrow> False
                | Some chs \<Rightarrow> channel_not_in (lower_channel ch) chs")
    case True
    then have "Map_init E mps pname ch = Inl invalid_combination"
      using Some by (simp add: Map_init_def)
    moreover have "\<exists>chs. p_channels mp = Some chs \<and> channel_not_in (lower_channel ch) chs"
      using True by (cases "p_channels mp") auto
    ultimately show ?thesis using Some by simp
  next
    case valid: False
    have no: "\<not> (\<exists>chs. p_channels mp = Some chs \<and> channel_not_in (lower_channel ch) chs)"
      using valid by (cases "p_channels mp") auto
    let ?self = "\<lparr>maps = mps, property_name = lower pname, channel = lower_channel ch,
                  shape = maps_shape mps, maps_property = mp,
                  map_value = None, map_ivar = None, map_mask = None,
                  map_header = None, map_unit = None\<rparr>"
    have f: "(case load_map_from_file ?self of Inl e \<Rightarrow> Inl e | Inr m \<Rightarrow> Inr (m, [])) \<noteq>
        Inl invalid_combination"
      using load_map_from_file_not_MarvinError [of ?self]
      by (cases "load_map_from_file ?self") (auto simp: invalid_combination_def)
    have d: "load_map_from_db E ?self \<noteq> Inl invalid_combination"
      using load_map_from_db_not_MarvinError [of E ?self]
      by (simp add: invalid_combination_def)
    have a: "(case load_map_from_api E ?self of Inl e \<Rightarrow> Inl e | Inr m \<Rightarrow> Inr (m, [])) \<noteq>
        Inl invalid_combination"
      using load_map_from_api_not_invalid_combination [of E ?self]
      by (cases "load_map_from_api E ?self") auto
    have "Map_init E mps pname ch \<noteq> Inl invalid_combination"
    proof (cases "data_origin mps = ''file''")
      case True
      then show ?thesis
        unfolding Map_init_valid [OF Some valid] Let_def using f by simp
    next
      case nf: False
      show ?thesis
      proof (cases "data_origin mps = ''db''")
        case True
        then show ?thesis
          unfolding Map_init_valid [OF Some valid] Let_def using nf d by simp
      next
        case nd: False
        show ?thesis
        proof (cases "data_origin mps = ''api''")
          case True
          then show ?thesis
            unfolding Map_init_valid [OF Some valid] Let_def using nf nd a by simp
        next
          case False
          then show ?thesis
            unfolding Map_init_valid [OF Some valid] Let_def using nf nd
            by (simp add: invalid_combination_def)
        qed
      qed
    qed
    then show ?thesis using Some no by simp
  qed
qed

theorem C5_invalid_combination_iff_witness:
  "Map_init (example_env request_ok)
     (example_maps ''file'' (HDUList example_hdulist) example_property)
     ''EMLINE_GFLUX'' None = Inl invalid_combination \<and>
   properties (example_maps ''file'' (HDUList example_hdulist) example_property)
     (lower ''EMLINE_GFLUX'') = Some example_property \<and>
   p_channels example_property = Some [''oii_3727'', ''ha_6564''] \<and>
   channel_not_in (lower_channel None) [''oii_3727'', ''ha_6564''] \<and>
   Map_init (example_env request_ok)
     (example_maps ''file'' (HDUList example_hdulist) example_property)
     ''STELLAR_VEL'' None = Inl invalid_combination \<and>
   properties (example_maps ''file'' (HDUList example_hdulist) example_property)
     (lower ''STELLAR_VEL'') = None \<and>
   Map_init (example_env request_ok)
     (example_maps ''file'' (HDUList example_hdulist) example_property)
     ''EMLINE_GFLUX'' (Some ''HA_6564'') \<noteq> Inl invalid_combination"
proof -
  let ?mps = "example_maps ''file'' (HDUList example_hdulist) example_property"
  have 1: "properties ?mps (lower ''EMLINE_GFLUX'') = Some example_property"
    by (simp add: example_maps_def registry_of_def example_property_def str_eval)
  have 2: "p_channels example_property = Some [''oii_3727'', ''ha_6564'']"
    by (simp add: example_property_def)
  have 3: "channel_not_in (lower_channel None) [''oii_3727'', ''ha_6564'']"
    by (simp add: channel_not_in_def lower_channel_def)
  have 4: "properties ?mps (lower ''STELLAR_VEL'') = None"
    by (simp add: example_maps_def registry_of_def example_property_def str_eval)
  have 5: "\<not> channel_not_in (lower_channel (Some ''HA_6564'')) [''oii_3727'', ''ha_6564'']"
    by (simp add: channel_not_in_def lower_channel_def str_eval)
  have a: "Map_init (example_env request_ok) ?mps ''EMLINE_GFLUX'' None =
      Inl invalid_combination"
    using C5_invalid_combination_iff [of "example_env request_ok" ?mps "''EMLINE_GFLUX''" None]
      1 2 3 by simp
  have b: "Map_init (example_env request_ok) ?mps ''STELLAR_VEL'' None =
      Inl invalid_combination"
    using C5_invalid_combination_iff [of "example_env request_ok" ?mps "''STELLAR_VEL''" None]
      4 by simp
  have c: "Map_init (example_env request_ok) ?mps ''EMLINE_GFLUX'' (Some ''HA_6564'') \<noteq>
      Inl invalid_combination"
    using C5_invalid_combination_iff
      [of "example_env request_ok" ?mps "''EMLINE_GFLUX''" "Some ''HA_6564''"] 1 2 5 by simp
  from 1 2 3 4 a b c show ?thesis by simp
qed

lemma lower_channel_cong:
  "map_option lower c = map_option lower c' \<Longrightarrow> lower_channel c = lower_channel c'"
  by (cases c; cases c') (auto simp: lower_channel_def lower_def)

lemma lower_channel_lower: "lower_channel c = Some s \<Longrightarrow> lower s = s"
  by (cases c) (auto simp: lower_channel_def lower_idem split: if_splits)

lemma Map_init_name:
  assumes "Map_init E mps n c = Inr (m, w)"
  shows "property_name m = lower n \<and> channel m = lower_channel c"
proof -
  from assms obtain mp where mp: "properties mps (lower n) = Some mp"
    by (cases "properties mps (lower n)") (auto simp: Map_init_def)
  from assms mp have ok: "\<not> (case p_channels mp of None \<Rightarrow> False
            | Some chs \<Rightarrow> channel_not_in (lower_channel c) chs)"
    by (auto simp: Map_init_def)
  let ?self = "\<lparr>maps = mps, property_name = lower n, channel = lower_channel c,
                shape = maps_shape mps, maps_property = mp,
                map_value = None, map_ivar = None, map_mask = None,
                map_header = None, map_unit = None\<rparr>"
  note init = assms [unfolded Map_init_valid [OF mp ok] Let_def]
  show ?thesis
  proof (cases "data_origin mps = ''file''")
    case True
    with init have "load_map_from_file ?self = Inr m"
      by (cases "load_map_from_file ?self") auto
    from load_map_from_file_name [OF this] show ?thesis by simp
  next
    case nf: False
    show ?thesis
    proof (cases "data_origin mps = ''db''")
      case True
      with init nf have "load_map_from_db E ?self = Inr (m, w)"
        by simp
      from load_map_from_db_name [OF this] show ?thesis by simp
    next
      case nd: False
      show ?thesis
      proof (cases "data_origin mps = ''api''")
        case True
        with init nf nd have "load_map_from_api E ?self = Inr m"
          by (cases "load_map_from_api E ?self") auto
        from load_map_from_api_name [OF this] show ?thesis by simp
      next
        case False
        with init nf nd have "m = ?self" by simp
        then show ?thesis by simp
      qed
    qed
  qed
qed

text \<open>
  C10: \<open>Map.__init__\<close> lower-cases the property name and the channel before the
  registry lookup and the loading: two calls whose names and channels differ in
  capitalisation only give the same result, and the stored \<open>property_name\<close> and
  \<open>channel\<close> are the lower-cased arguments, with no upper-case letter in them.
\<close>

theorem C10_Map_init_lower_cases:
  "(lower n = lower n' \<and> map_option lower c = map_option lower c'
      \<longrightarrow> Map_init E mps n c = Map_init E mps n' c') \<and>
   (Map_init E mps n c = Inr (m, w)
      \<longrightarrow> property_name m = lower n \<and> channel m = lower_channel c \<and>
          lower (property_name m) = property_name m \<and>
          map_option lower (channel m) = channel m \<and>
          (\<forall>x\<in>set (property_name m). \<not> (65 \<le> (of_char x :: nat) \<and> (of_char x :: nat) \<le> 90)))"
proof (intro conjI impI)
  assume h: "lower n = lower n' \<and> map_option lower c = map_option lower c'"
  then have e1: "lower n = lower n'"
    by simp
  from h have "map_option lower c = map_option lower c'"
    by simp
  then have e2: "lower_channel c = lower_channel c'"
    by (rule lower_channel_cong)
  show "Map_init E mps n c = Map_init E mps n' c'"
    by (simp only: Map_init_def e1 e2)
next
  assume a: "Map_init E mps n c = Inr (m, w)"
  from Map_init_name [OF a]
  have p: "property_name m = lower n" and ch: "channel m = lower_channel c"
    by simp_all
  show "property_name m = lower n" by (rule p)
  show "channel m = lower_channel c" by (rule ch)
  show "lower (property_name m) = property_name m"
    unfolding p by (rule lower_idem)
  show "map_option lower (channel m) = channel m"
  proof (cases "lower_channel c")
    case None
    then show ?thesis unfolding ch by simp
  next
    case (Some s)
    from lower_channel_lower [OF Some] show ?thesis unfolding ch Some by simp
  qed
  show "\<forall>x\<in>set (property_name m).
      \<not> (65 \<le> (of_char x :: nat) \<and> (of_char x :: nat) \<le> 90)"
    unfolding p
  proof
    fix x
    assume "x \<in> set (lower n)"
    then show "\<not> (65 \<le> (of_char x :: nat) \<and> (of_char x :: nat) \<le> 90)"
      by (rule lower_no_upper)
  qed
qed

theorem C10_Map_init_lower_cases_witness:
  "lower ''Emline_GFlux'' = lower ''EMLINE_gflux'' \<and>
   map_option lower (Some ''Ha_6564'') = map_option lower (Some ''HA_6564'') \<and>
   Map_init (example_env request_ok)
     (example_maps ''file'' (HDUList example_hdulist) example_property)
     ''Emline_GFlux'' (Some ''Ha_6564'') =
   Map_init (example_env request_ok)
     (example_maps ''file'' (HDUList example_hdulist) example_property)
     ''EMLINE_gflux'' (Some ''HA_6564'') \<and>
   (\<exists>m w. Map_init (example_env request_ok)
            (example_maps ''file'' (HDUList example_hdulist) example_property)
            ''Emline_GFlux'' (Some ''Ha_6564'') = Inr (m, w) \<and>
          property_name m = ''emline_gflux'' \<and> channel m = Some ''ha_6564'')"
proof -
  let ?E = "example_env request_ok"
  let ?mps = "example_maps ''file'' (HDUList example_hdulist) example_property"
  have 1: "lower ''Emline_GFlux'' = lower ''EMLINE_gflux''"
    by (simp add: str_eval)
  have 2: "map_option lower (Some ''Ha_6564'') = map_option lower (Some ''HA_6564'')"
    by (simp add: str_eval)
  obtain m w where m: "Map_init ?E ?mps ''Emline_GFlux'' (Some ''Ha_6564'') = Inr (m, w)"
    by (simp add: map_eval map_example_defs Let_def str_eval)
  note inst = C10_Map_init_lower_cases [of "''Emline_GFlux''" "''EMLINE_gflux''"
      "Some ''Ha_6564''" "Some ''HA_6564''" ?E ?mps m w]
  from inst 1 2 have eq: "Map_init ?E ?mps ''Emline_GFlux'' (Some ''Ha_6564'') =
      Map_init ?E ?mps ''EMLINE_gflux'' (Some ''HA_6564'')"
    by blast
  from inst m have "property_name m = lower ''Emline_GFlux''"
    and "channel m = lower_channel (Some ''Ha_6564'')"
    by blast+
  then have "property_name m = ''emline_gflux''" and "channel m = Some ''ha_6564''"
    by (simp_all add: lower_channel_def str_eval)
  with 1 2 eq m show ?thesis by blast
qed

subsection \<open>The API loader\<close>



subsection \<open>The channel of a map, in the three loaders\<close>

text \<open>
  C4, as stated, fails. With the channels of the property listed as \<open>ha_6564\<close>,
  \<open>oii_3727\<close>, the file loader takes plane 0 of the stored data for \<open>ha_6564\<close>, while
  the DB loader reads the column named after the channel, whatever its position in
  the list: for the same property, channel and release the file gives one array and
  the DB and the API another. With the channels listed in the other order the DB
  loader gives the same array again.
\<close>

theorem C4_counterexample:
  "index [''ha_6564'', ''oii_3727''] ''ha_6564'' = 0 \<and>
   index [''oii_3727'', ''ha_6564''] ''ha_6564'' = 1 \<and>
   map_option map_value (constructed (Map_init (example_env request_ok)
     (example_maps ''file'' (HDUList example_hdulist) swapped_property)
     ''emline_gflux'' (Some ''ha_6564''))) = Some (Some (array2 [[1, 2], [3, 4]])) \<and>
   map_option map_value (constructed (Map_init (example_env request_ok)
     (example_maps ''db'' (DBFile (example_db matching_hdus)) swapped_property)
     ''emline_gflux'' (Some ''ha_6564''))) = Some (Some (array2 [[5, 6], [7, 8]])) \<and>
   map_option map_value (constructed (Map_init (example_env request_ok)
     (example_maps ''api'' NoData swapped_property)
     ''emline_gflux'' (Some ''ha_6564''))) = Some (Some (array2 [[5, 6], [7, 8]])) \<and>
   map_option map_value (constructed (Map_init (example_env request_ok)
     (example_maps ''db'' (DBFile (example_db matching_hdus)) example_property)
     ''emline_gflux'' (Some ''ha_6564''))) = Some (Some (array2 [[5, 6], [7, 8]])) \<and>
   array2 [[1, 2], [3, 4]] \<noteq> (array2 [[5, 6], [7, 8]] :: int ndarray)"
  by (simp add: map_eval map_example_defs constructed_def Let_def upt_rec str_eval)

text \<open>
  C4, amended: for every channel-bearing map property, the file loader indexes the
  stored data of the property's extension by the channel's position in the entry's
  channel list (\<open>channels.index(channel)\<close>); the DB loader does not use the position:
  its value is the column named \<open>fullname(channel)\<close>, read from the rows in an
  ascending order of \<open>spaxel_index\<close> and reshaped (\<open>numpy.argsort\<close> being any function
  that returns an argsort; which of the ascending orders it is, when two rows have the
  same \<open>spaxel_index\<close>, is left to it); the API loader takes the value array of the
  payload as it is. (The three arrays are equal when the plane at that position, that
  column and the payload hold the same values.)
\<close>

theorem C4_channel_slices:
  "(load_map_from_file self_f = Inr m_f \<and> channel self_f = Some ch \<longrightarrow>
      (\<exists>hl h chs v.
         data (maps self_f) = HDUList hl \<and> hl (property_name self_f) = Some h \<and>
         p_channels (maps_property self_f) = Some chs \<and> ch \<in> set chs \<and>
         ndarray_getitem (hdu_data h) (index chs ch) = Inr v \<and>
         map_value m_f = Some v)) \<and>
   (load_map_from_db E self_d = Inr (m_d, w) \<and> (\<forall>ks. is_argsort ks (argsort E ks)) \<longrightarrow>
      (\<exists>db ver rs vals v.
         data (maps self_d) = DBFile db \<and>
         StrictVersion E (dapver (maps self_d)) = Some ver \<and>
         mset rs = mset (if version_le ver (1, 1, 1) then spaxelprops db
                         else spaxelprops5 db) \<and>
         sorted (map spaxel_index rs) \<and>
         getattrs rs (fullname E (maps_property self_d) (channel self_d) None) = Inr vals \<and>
         reshape (shape self_d) vals = Inr v \<and>
         map_value m_d = Some v)) \<and>
   (load_map_from_api E self_a = Inr m_a \<longrightarrow>
      (\<exists>r d. getmap_request E self_a = Inr r \<and> getData r = Some d \<and>
         map_value m_a = d_value d))"
proof (intro conjI impI)
  assume a: "load_map_from_file self_f = Inr m_f \<and> channel self_f = Some ch"
  from load_map_from_file_Inr [of self_f m_f] a obtain hl h idx v iv mk u where
    f: "data (maps self_f) = HDUList hl" "hl (property_name self_f) = Some h"
      "channel_idx_of self_f = Inr idx" "file_array hl (property_name self_f) idx = Inr v" and
    m: "m_f = self_f\<lparr>map_header := Some (hdu_header h), map_value := Some v,
                      map_ivar := iv, map_mask := mk, map_unit := u\<rparr>"
    by blast
  from f(3) a obtain chs where chs: "p_channels (maps_property self_f) = Some chs"
    "ch \<in> set chs" "idx = Some (index chs ch)"
    by (auto simp: channel_idx_of_def split: option.splits if_splits)
  have "ndarray_getitem (hdu_data h) (index chs ch) = Inr v"
    using f(2,4) chs(3) by (simp add: file_array_def)
  moreover have "map_value m_f = Some v"
    using m by simp
  ultimately show "\<exists>hl h chs v.
         data (maps self_f) = HDUList hl \<and> hl (property_name self_f) = Some h \<and>
         p_channels (maps_property self_f) = Some chs \<and> ch \<in> set chs \<and>
         ndarray_getitem (hdu_data h) (index chs ch) = Inr v \<and>
         map_value m_f = Some v"
    using f(1,2) chs(1,2) by blast
next
  assume a: "load_map_from_db E self_d = Inr (m_d, w) \<and> (\<forall>ks. is_argsort ks (argsort E ks))"
  then have l: "load_map_from_db E self_d = Inr (m_d, w)" and
    srt: "\<And>ks. is_argsort ks (argsort E ks)"
    by simp_all
  from load_map_from_db_Inr [OF l] obtain db ver v iv mk where
    db: "data (maps self_d) = DBFile db" and
    ver: "StrictVersion E (dapver (maps self_d)) = Some ver" and
    v: "db_array E self_d
          (if version_le ver (1, 1, 1) then spaxelprops db else spaxelprops5 db)
          (argsort E (map spaxel_index
             (if version_le ver (1, 1, 1) then spaxelprops db else spaxelprops5 db)))
          None = Inr v" and
    m: "if db_header_dict self_d (hdus db) = None \<or> db_header_dict self_d (hdus db) = Some []
        then m_d = self_d\<lparr>map_value := Some v, map_ivar := iv, map_mask := mk\<rparr> \<and>
             w = [MarvinUserWarning (''cannot find the header for property '' @
                    p_name (maps_property self_d) @ ''.'')]
        else m_d = self_d\<lparr>map_value := Some v, map_ivar := iv, map_mask := mk,
                         map_header := db_header_dict self_d (hdus db)\<rparr> \<and> w = []"
    by blast
  define rows where
    "rows = (if version_le ver (1, 1, 1) then spaxelprops db else spaxelprops5 db)"
  define rs where "rs = map (\<lambda>i. rows ! i) (argsort E (map spaxel_index rows))"
  have o: "is_argsort (map spaxel_index rows) (argsort E (map spaxel_index rows))"
    by (rule srt)
  have p: "mset rs = mset rows"
    unfolding rs_def by (rule take_order_is_argsort(2) [OF o])
  have q: "sorted (map spaxel_index rs)"
    unfolding rs_def by (rule take_order_is_argsort(3) [OF o])
  have "(case getattrs rs (fullname E (maps_property self_d) (channel self_d) None) of
           Inl e \<Rightarrow> Inl e
         | Inr vals \<Rightarrow> reshape (shape self_d) vals) = Inr v"
    using v unfolding rows_def [symmetric] db_array_sorted [OF o] rs_def [symmetric] .
  then obtain vals where
    g: "getattrs rs (fullname E (maps_property self_d) (channel self_d) None) = Inr vals"
       "reshape (shape self_d) vals = Inr v"
    by (auto split: sum.splits)
  have "map_value m_d = Some v"
    using m by (auto split: if_splits)
  then show "\<exists>db ver rs vals v.
         data (maps self_d) = DBFile db \<and>
         StrictVersion E (dapver (maps self_d)) = Some ver \<and>
         mset rs = mset (if version_le ver (1, 1, 1) then spaxelprops db
                         else spaxelprops5 db) \<and>
         sorted (map spaxel_index rs) \<and>
         getattrs rs (fullname E (maps_property self_d) (channel self_d) None) = Inr vals \<and>
         reshape (shape self_d) vals = Inr v \<and>
         map_value m_d = Some v"
    using db ver p q g unfolding rows_def by blast
next
  assume a: "load_map_from_api E self_a = Inr m_a"
  from load_map_from_api_Inr [OF a] obtain r d v iv mk u hdr where
    r: "getmap_request E self_a = Inr r" "getData r = Some d" "d_value d = Some v" and
    m: "m_a = self_a\<lparr>map_value := Some v, map_ivar := Some iv, map_mask := Some mk,
                     map_unit := Some u, map_header := Some hdr\<rparr>"
    by blast
  have "map_value m_a = d_value d"
    using m r(3) by simp
  then show "\<exists>r d. getmap_request E self_a = Inr r \<and> getData r = Some d \<and>
         map_value m_a = d_value d"
    using r(1,2) by blast
qed

theorem C4_channel_slices_witness:
  "map_option map_value (constructed (Map_init (example_env request_ok)
     (example_maps ''file'' (HDUList example_hdulist) example_property)
     ''emline_gflux'' (Some ''ha_6564''))) = Some (Some (array2 [[5, 6], [7, 8]])) \<and>
   ndarray_getitem (array3 [[[1, 2], [3, 4]], [[5, 6], [7, 8]]])
     (index [''oii_3727'', ''ha_6564''] ''ha_6564'') = Inr (array2 [[5, 6], [7, 8 :: int]]) \<and>
   map_option map_value (constructed (Map_init (example_env request_ok)
     (example_maps ''db'' (DBFile (example_db matching_hdus)) example_property)
     ''emline_gflux'' (Some ''ha_6564''))) = Some (Some (array2 [[5, 6], [7, 8]])) \<and>
   spec_raster_array example_rows ''emline_gflux_ha_6564'' (2, 2) =
     Inr (array2 [[5, 6], [7, 8]]) \<and>
   map_option map_value (constructed (Map_init (example_env request_ok)
     (example_maps ''api'' NoData example_property)
     ''emline_gflux'' (Some ''ha_6564''))) = Some (Some (array2 [[5, 6], [7, 8]])) \<and>
   d_value example_payload = Some (array2 [[5, 6], [7, 8]])"
proof -
  let ?E = "example_env request_ok"
  let ?f = "example_self (example_maps ''file'' (HDUList example_hdulist) example_property)
              example_property"
  let ?d = "example_self (example_maps ''db'' (DBFile (example_db matching_hdus))
              example_property) example_property"
  let ?a = "example_self (example_maps ''api'' NoData example_property) example_property"
  obtain mf where mf: "load_map_from_file ?f = Inr mf"
    by (simp add: map_eval map_example_defs Let_def)
  obtain md where md: "load_map_from_db ?E ?d = Inr (md, [])"
    by (simp add: map_eval map_example_defs Let_def upt_rec str_eval)
  obtain ma where ma: "load_map_from_api ?E ?a = Inr ma"
    by (simp add: map_eval map_example_defs Let_def)
  have ch: "channel ?f = Some ''ha_6564''"
    by (simp add: example_self_def)
  note inst = C4_channel_slices [of ?f mf "''ha_6564''" ?E ?d md "[]" ?a ma]
  from inst mf ch obtain hl h chs v where
    f: "data (maps ?f) = HDUList hl" "hl (property_name ?f) = Some h"
       "p_channels (maps_property ?f) = Some chs"
       "ndarray_getitem (hdu_data h) (index chs ''ha_6564'') = Inr v"
       "map_value mf = Some v"
    by blast
  have "hl = example_hdulist"
    using f(1) by (simp add: example_self_def example_maps_def)
  then have "hdu_data h = array3 [[[1, 2], [3, 4]], [[5, 6], [7, 8]]]"
    using f(2) by (auto simp: example_self_def example_hdulist_def)
  moreover have "chs = [''oii_3727'', ''ha_6564'']"
    using f(3) by (simp add: example_self_def example_property_def)
  moreover have g: "ndarray_getitem (array3 [[[1, 2], [3, 4]], [[5, 6], [7, 8]]])
     (index [''oii_3727'', ''ha_6564''] ''ha_6564'') = Inr (array2 [[5, 6], [7, 8 :: int]])"
    by (simp add: array3_def array2_def)
  ultimately have vf: "map_value mf = Some (array2 [[5, 6], [7, 8]])"
    using f(4,5) by simp
  have srt: "\<forall>ks. is_argsort ks (argsort ?E ks)"
    by (simp add: example_env_def stable_argsort_is_argsort)
  from inst md srt obtain db ver rs vals v' where
    d: "data (maps ?d) = DBFile db" "StrictVersion ?E (dapver (maps ?d)) = Some ver"
       "mset rs = mset (if version_le ver (1, 1, 1) then spaxelprops db else spaxelprops5 db)"
       "sorted (map spaxel_index rs)"
       "getattrs rs (fullname ?E (maps_property ?d) (channel ?d) None) = Inr vals"
       "reshape (shape ?d) vals = Inr v'"
       "map_value md = Some v'"
    by blast
  have "db = example_db matching_hdus"
    using d(1) by (simp add: example_self_def example_maps_def)
  moreover have "ver = (2, 0, 2)"
    using d(2) by (simp add: example_self_def example_maps_def example_env_def)
  ultimately have rows:
    "(if version_le ver (1, 1, 1) then spaxelprops db else spaxelprops5 db) = example_rows"
    by (simp add: version_le_def example_db_def)
  have dist: "distinct (map spaxel_index example_rows)"
    by (simp add: example_rows_def example_row_def)
  have rs: "rs = sort_key spaxel_index example_rows"
    using d(3,4) dist unfolding rows by (rule sorted_perm_unique)
  have col: "fullname ?E (maps_property ?d) (channel ?d) None = ''emline_gflux_ha_6564''"
    by (simp add: example_self_def example_env_def example_fullname_def example_property_def)
  have sh: "shape ?d = (2, 2)"
    by (simp add: example_self_def example_maps_def)
  have e: "spec_raster_array example_rows ''emline_gflux_ha_6564'' (2, 2) =
      Inr (array2 [[5, 6], [7, 8]])"
    by (simp add: map_eval map_example_defs upt_rec)
  have "spec_raster_array example_rows ''emline_gflux_ha_6564'' (2, 2) = Inr v'"
    using d(5,6) unfolding rs col sh by (simp add: spec_raster_array_def)
  with e d(7) have vd: "map_value md = Some (array2 [[5, 6], [7, 8]])"
    by simp
  from inst ma obtain r p where
    a: "getmap_request ?E ?a = Inr r" "getData r = Some p" "map_value ma = d_value p"
    by blast
  have "r = \<lparr>getData = Some example_payload, results = Map.empty\<rparr>"
    using a(1) by (simp add: getmap_request_def example_env_def request_ok_def)
  then have "p = example_payload" using a(2) by simp
  moreover have pv: "d_value example_payload = Some (array2 [[5, 6], [7, 8]])"
    by (simp add: example_payload_def)
  ultimately have va: "map_value ma = Some (array2 [[5, 6], [7, 8]])"
    using a(3) by simp
  have i1: "Map_init ?E (example_maps ''file'' (HDUList example_hdulist) example_property)
      ''emline_gflux'' (Some ''ha_6564'') = Inr (mf, [])"
    using mf by (simp add: map_eval map_example_defs Let_def str_eval)
  have i2: "Map_init ?E (example_maps ''db'' (DBFile (example_db matching_hdus))
      example_property) ''emline_gflux'' (Some ''ha_6564'') = Inr (md, [])"
    using md by (simp add: map_eval map_example_defs Let_def upt_rec str_eval)
  have i3: "Map_init ?E (example_maps ''api'' NoData example_property)
      ''emline_gflux'' (Some ''ha_6564'') = Inr (ma, [])"
    using ma by (simp add: map_eval map_example_defs Let_def str_eval)
  show ?thesis
    unfolding i1 i2 i3 using vf vd va g e pv by (simp add: constructed_def)
qed

section \<open>Appending to a DataCubeList or a SpectrumList\<close>

lemmas heap_eval = DataCubeList_append_def SpectrumList_append_def deepcopy_def set_parent_def
  example_heap_def example_list_def

text \<open>
  C9: \<open>append\<close> is claimed to raise ValueError on a value of any other type. For the
  string \<open>'flux'\<close> the assignment \<open>append_obj.parent = self.parent\<close>, which comes before
  the type check, raises AttributeError; the store and the list are left as they were.
\<close>

theorem C9_append_string_raises_AttributeError:
  "type_of (objs example_heap 0) = T_str \<and>
   DataCubeList_append example_heap example_list 0 True =
     ((example_heap, example_list), Some (AttributeError ''parent'')) \<and>
   SpectrumList_append example_heap example_list 0 True =
     ((example_heap, example_list), Some (AttributeError ''parent''))"
  by (simp add: heap_eval)

text \<open>
  The parts of C9 that hold. An object of the other class is refused with ValueError,
  and the list is not modified.
\<close>

lemma DataCubeList_append_other_class:
  assumes "objs h v = Obj_Spectrum s"
  shows "\<exists>h'. DataCubeList_append h self v copy =
           ((h', self), Some (ValueError_invalid_datacube T_Spectrum))"
  using assms by (cases copy) (simp_all add: DataCubeList_append_def deepcopy_def set_parent_def)

lemma DataCubeList_append_other_class_witness:
  "objs example_heap 2 = Obj_Spectrum example_spectrum \<and>
   snd (DataCubeList_append example_heap example_list 2 True) =
     Some (ValueError_invalid_datacube T_Spectrum) \<and>
   snd (fst (DataCubeList_append example_heap example_list 2 True)) = example_list"
proof -
  have 1: "objs example_heap 2 = Obj_Spectrum example_spectrum"
    by (simp add: example_heap_def)
  from DataCubeList_append_other_class [OF 1, of example_list True]
  obtain h' where "DataCubeList_append example_heap example_list 2 True =
      ((h', example_list), Some (ValueError_invalid_datacube T_Spectrum))"
    by blast
  with 1 show ?thesis by simp
qed

text \<open>
  With \<open>copy=True\<close> a datacube is stored as a new object, equal to the given one but
  for its parent, which is the parent of the list; the given object is not changed, and
  a later assignment to it does not reach the stored copy.
\<close>

lemma DataCubeList_append_copies:
  assumes "objs h v = Obj_DataCube d" and "v < next_ref h"
  shows "\<exists>h'. DataCubeList_append h self v True =
           ((h', self\<lparr>list_items := list_items self @ [next_ref h]\<rparr>), None) \<and>
         objs h' (next_ref h) = Obj_DataCube (d\<lparr>parent := list_parent self\<rparr>) \<and>
         objs h' v = objs h v \<and> next_ref h \<noteq> v \<and>
         (\<forall>x. ((objs h')(v := x)) (next_ref h) = objs h' (next_ref h))"
  using assms by (simp add: DataCubeList_append_def deepcopy_def set_parent_def)

lemma DataCubeList_append_copies_witness:
  "objs example_heap 1 = Obj_DataCube example_datacube \<and>
   snd (DataCubeList_append example_heap example_list 1 True) = None \<and>
   list_items (snd (fst (DataCubeList_append example_heap example_list 1 True))) = [3] \<and>
   objs (fst (fst (DataCubeList_append example_heap example_list 1 True))) 3 =
     Obj_DataCube (example_datacube\<lparr>parent := Some 7\<rparr>) \<and>
   objs (fst (fst (DataCubeList_append example_heap example_list 1 True))) 1 =
     Obj_DataCube example_datacube"
proof -
  have 1: "objs example_heap 1 = Obj_DataCube example_datacube"
    by (simp add: example_heap_def)
  have 2: "1 < next_ref example_heap"
    by (simp add: example_heap_def)
  from DataCubeList_append_copies [OF 1 2, of example_list]
  obtain h' where h: "DataCubeList_append example_heap example_list 1 True =
      ((h', example_list\<lparr>list_items := list_items example_list @ [next_ref example_heap]\<rparr>),
       None)"
    "objs h' (next_ref example_heap) =
       Obj_DataCube (example_datacube\<lparr>parent := list_parent example_list\<rparr>)"
    "objs h' 1 = objs example_heap 1"
    by blast
  have "next_ref example_heap = 3" "list_parent example_list = Some 7"
    "list_items example_list = []"
    by (simp_all add: example_heap_def example_list_def)
  with h 1 show ?thesis by simp
qed

text \<open>
  Every element of a list stays an instance of DataCube: \<open>append\<close> adds an element
  only after the type check, and no path changes the class of an object.
\<close>

lemma deepcopy_type:
  "deepcopy h v = (h1, r) \<Longrightarrow>
     type_of (objs h1 r) = type_of (objs h v) \<and>
     (\<forall>x. x \<noteq> next_ref h \<longrightarrow> objs h1 x = objs h x)"
  by (cases "objs h v") (auto simp: deepcopy_def)

lemma set_parent_type:
  "set_parent h r p = Inr h2 \<Longrightarrow> type_of (objs h2 x) = type_of (objs h x)"
  by (cases "objs h r") (auto simp: set_parent_def)

lemma DataCubeList_append_invariant:
  assumes inv: "\<forall>r\<in>set (list_items self). type_of (objs h r) = T_DataCube \<and> r < next_ref h"
    and app: "DataCubeList_append h self v copy = ((h', self'), e)"
  shows "\<forall>r\<in>set (list_items self'). type_of (objs h' r) = T_DataCube"
proof -
  obtain h1 obj where c: "(if copy = False then (h, v) else deepcopy h v) = (h1, obj)"
    by (cases "if copy = False then (h, v) else deepcopy h v")
  have old: "\<forall>r\<in>set (list_items self). type_of (objs h1 r) = T_DataCube"
  proof (cases copy)
    case False
    then show ?thesis using c inv by simp
  next
    case True
    then have "deepcopy h v = (h1, obj)" using c by simp
    from deepcopy_type [OF this] have "\<forall>x. x \<noteq> next_ref h \<longrightarrow> objs h1 x = objs h x"
      by simp
    then show ?thesis using inv by (metis less_irrefl)
  qed
  show ?thesis
  proof (cases "set_parent h1 obj (list_parent self)")
    case (Inl err)
    then have "h' = h1" "self' = self"
      using app c by (simp_all add: DataCubeList_append_def)
    then show ?thesis using old by simp
  next
    case (Inr h2)
    have ty: "type_of (objs h2 x) = type_of (objs h1 x)" for x
      using set_parent_type [OF Inr] by simp
    show ?thesis
    proof (cases "type_of (objs h2 obj) = T_DataCube")
      case True
      then have "h' = h2" "self' = self\<lparr>list_items := list_items self @ [obj]\<rparr>"
        using app c Inr by (simp_all add: DataCubeList_append_def)
      then show ?thesis using old ty True by auto
    next
      case False
      then have "h' = h2" "self' = self"
        using app c Inr by (simp_all add: DataCubeList_append_def)
      then show ?thesis using old ty by simp
    qed
  qed
qed

lemma DataCubeList_append_invariant_witness:
  "type_of (objs (fst (fst (DataCubeList_append example_heap example_list 1 False))) 1) =
     T_DataCube \<and>
   list_items (snd (fst (DataCubeList_append example_heap example_list 1 False))) = [1]"
proof -
  have inv: "\<forall>r\<in>set (list_items example_list).
      type_of (objs example_heap r) = T_DataCube \<and> r < next_ref example_heap"
    by (simp add: example_list_def)
  obtain h' where app: "DataCubeList_append example_heap example_list 1 False =
      ((h', example_list\<lparr>list_items := [1]\<rparr>), None)"
    by (simp add: heap_eval example_datacube_def DataCube_init_def)
  from DataCubeList_append_invariant [OF inv app]
  have "type_of (objs h' 1) = T_DataCube" by simp
  then show ?thesis using app by simp
qed

end
